theory Spec2Isabelle
  imports Main
begin

section \<open>The request pipeline of the TMDb client (tmdb.go)\<close>

text \<open>
  A shallow embedding of \<^verbatim>\<open>tmdb.go\<close>: the client handle, the retry policy, the two
  request executors \<^verbatim>\<open>get\<close> and \<^verbatim>\<open>request\<close>, \<^verbatim>\<open>fmtOptions\<close>, \<^verbatim>\<open>Error.Error\<close> and
  \<^verbatim>\<open>decodeError\<close>.

  Go strings and byte slices are \<open>string\<close> (lists of 8-bit characters). Go's \<^verbatim>\<open>int\<close>
  and \<^verbatim>\<open>time.Duration\<close> (a count of nanoseconds in an \<^verbatim>\<open>int64\<close>) are \<open>int\<close>; the only
  arithmetic the file does on them is \<^verbatim>\<open>time.Second * 5\<close>, \<^verbatim>\<open>time.Second * 10\<close> and
  \<^verbatim>\<open>time.Duration(seconds) * time.Second\<close> with \<^verbatim>\<open>seconds\<close> in the 32-bit range, none of
  which leaves the 64-bit range (lemma \<open>retryDuration_int64\<close>).
\<close>

subsection \<open>Data\<close>

text \<open>\<^verbatim>\<open>http.Client\<close>: the one field the file reads and writes is \<^verbatim>\<open>Timeout\<close>.\<close>

record http_Client =
  Timeout :: int

text \<open>\<^verbatim>\<open>type Client struct\<close>. The zero value of every field is what \<^verbatim>\<open>Init\<close> leaves.\<close>

record Client =
  apiKey :: string
  sessionID :: string
  autoRetry :: bool
  withContext :: bool
  http :: http_Client

text \<open>\<^verbatim>\<open>type Error struct\<close>, the API's error envelope.\<close>

record Error =
  StatusMessage :: string
  Success :: bool
  StatusCode :: int

text \<open>
  A Go \<^verbatim>\<open>error\<close> value as this file produces it: a text made by \<^verbatim>\<open>errors.New\<close> or
  \<^verbatim>\<open>fmt.Errorf\<close>, the error of the transport handed on as it is (\<^verbatim>\<open>return err\<close> in
  \<^verbatim>\<open>get\<close>; known here by its text), or an \<^verbatim>\<open>Error\<close> struct.
\<close>

datatype go_error =
  ErrorString string
  | TransportError string
  | APIError Error

text \<open>
  A response body (\<^verbatim>\<open>io.ReadCloser\<close>): the bytes it yields, then end of file or a
  read error.
\<close>

record Body_reader =
  content :: string
  read_error :: "string option"

text \<open>
  \<^verbatim>\<open>http.Response\<close>: status code, header (canonical key to its values) and body.
\<close>

record http_Response =
  resStatusCode :: int
  Header :: "string \<rightharpoonup> string list"
  Body :: Body_reader

text \<open>\<^verbatim>\<open>http.Request\<close> as the executors build it.\<close>

record http_Request =
  reqMethod :: string
  reqURL :: string
  reqBody :: string
  reqHeader :: "(string \<times> string) list"

subsection \<open>Constants of the Go library\<close>

definition Second :: int where
  "Second = 1000000000"

definition StatusOK :: int where "StatusOK = 200"
definition StatusAccepted :: int where "StatusAccepted = 202"
definition StatusNoContent :: int where "StatusNoContent = 204"
definition StatusMultipleChoices :: int where "StatusMultipleChoices = 300"
definition StatusTooManyRequests :: int where "StatusTooManyRequests = 429"

definition MethodGet :: string where
  "MethodGet = ''GET''"

subsection \<open>Client handle\<close>

text \<open>\<^verbatim>\<open>func Init(apiKey string) (*Client, error)\<close>\<close>

definition Init :: "string \<Rightarrow> go_error + Client" where
  "Init k =
     (if k = [] then Inl (ErrorString ''APIKey is empty'')
      else Inr \<lparr>apiKey = k, sessionID = [], autoRetry = False, withContext = False,
                http = \<lparr>Timeout = 0\<rparr>\<rparr>)"

text \<open>
  \<^verbatim>\<open>func (c *Client) SetSessionID(sid string) error\<close>: the handle after the call and
  the error returned (\<open>None\<close> is \<^verbatim>\<open>nil\<close>).
\<close>

definition SetSessionID :: "Client \<Rightarrow> string \<Rightarrow> Client \<times> go_error option" where
  "SetSessionID c sid =
     (if sid = [] then (c, Some (ErrorString ''The SessionID is empty''))
      else (c\<lparr>sessionID := sid\<rparr>, None))"

definition SetClientConfig :: "Client \<Rightarrow> http_Client \<Rightarrow> Client" where
  "SetClientConfig c httpClient = c\<lparr>http := httpClient\<rparr>"

definition SetClientAutoRetry :: "Client \<Rightarrow> Client" where
  "SetClientAutoRetry c = c\<lparr>autoRetry := True\<rparr>"

definition SetClientWithContext :: "Client \<Rightarrow> Client" where
  "SetClientWithContext c = c\<lparr>withContext := True\<rparr>"

subsection \<open>Retry policy\<close>

definition defaultRetryDuration :: int where
  "defaultRetryDuration = Second * 5"

text \<open>
  \<^verbatim>\<open>Header.Get(key)\<close>: the first value stored under the key, the empty string when
  there is none. The key \<^verbatim>\<open>Retry-After\<close> is already in canonical form.
\<close>

definition Header_Get :: "(string \<rightharpoonup> string list) \<Rightarrow> string \<Rightarrow> string" where
  "Header_Get h key = (case h key of None \<Rightarrow> [] | Some [] \<Rightarrow> [] | Some (v # _) \<Rightarrow> v)"

text \<open>
  \<^verbatim>\<open>strconv.ParseInt(s, 10, 32)\<close>, \<open>None\<close> when it returns an error. Go takes an
  optional sign, then \<^verbatim>\<open>ParseUint\<close> reads one or more decimal digits (base 10 given
  explicitly, so no underscores and no prefix); the magnitude \<open>un\<close> is out of range when
  \<open>un \<ge> 2^31\<close> without a minus sign or \<open>un > 2^31\<close> with one.
\<close>

definition is_digit :: "char \<Rightarrow> bool" where
  "is_digit c = (48 \<le> (of_char c :: nat) \<and> (of_char c :: nat) \<le> 57)"

fun parse_digits :: "string \<Rightarrow> nat \<Rightarrow> nat option" where
  "parse_digits [] acc = Some acc"
| "parse_digits (c # cs) acc =
     (if is_digit c then parse_digits cs (acc * 10 + (of_char c - 48)) else None)"

definition ParseUint :: "string \<Rightarrow> nat option" where
  "ParseUint s = (if s = [] then None else parse_digits s 0)"

definition ParseInt32 :: "string \<Rightarrow> int option" where
  "ParseInt32 s =
     (if s = [] then None
      else
        let neg = (hd s = CHR ''-'');
            s' = (if hd s = CHR ''+'' \<or> hd s = CHR ''-'' then tl s else s)
        in case ParseUint s' of
             None \<Rightarrow> None
           | Some un \<Rightarrow>
               if \<not> neg \<and> un \<ge> 2 ^ 31 then None
               else if neg \<and> un > 2 ^ 31 then None
               else Some (if neg then - int un else int un))"

text \<open>\<^verbatim>\<open>func retryDuration(resp *http.Response) time.Duration\<close>\<close>

definition retryDuration :: "http_Response \<Rightarrow> int" where
  "retryDuration resp =
     (let retryTime = Header_Get (Header resp) ''Retry-After''
      in if retryTime = [] then defaultRetryDuration
         else case ParseInt32 retryTime of
                None \<Rightarrow> defaultRetryDuration
              | Some seconds \<Rightarrow> seconds * Second)"

text \<open>\<^verbatim>\<open>func shouldRetry(status int) bool\<close>\<close>

definition shouldRetry :: "int \<Rightarrow> bool" where
  "shouldRetry status = (status = StatusAccepted \<or> status = StatusTooManyRequests)"

subsection \<open>Formatting verbs of \<^verbatim>\<open>fmt\<close>\<close>

text \<open>\<^verbatim>\<open>%d\<close> of an integer, \<^verbatim>\<open>%t\<close> of a boolean. \<^verbatim>\<open>%s\<close> of a string is the string.\<close>

definition digit_char :: "nat \<Rightarrow> char" where
  "digit_char d = ''0123456789'' ! d"

fun show_nat :: "nat \<Rightarrow> string" where
  "show_nat n =
     (if n < 10 then [digit_char n] else show_nat (n div 10) @ [digit_char (n mod 10)])"

declare show_nat.simps [simp del]

definition show_int :: "int \<Rightarrow> string" where
  "show_int i = (if i < 0 then CHR ''-'' # show_nat (nat (- i)) else show_nat (nat i))"

definition show_bool :: "bool \<Rightarrow> string" where
  "show_bool b = (if b then ''true'' else ''false'')"

subsection \<open>Option formatting\<close>

text \<open>
  \<^verbatim>\<open>url.QueryEscape\<close>: letters, digits and \<^verbatim>\<open>- _ . ~\<close> stay, a space becomes \<^verbatim>\<open>+\<close>, every
  other byte becomes \<^verbatim>\<open>%\<close> and its two upper-case hexadecimal digits.
\<close>

definition upperhex :: string where
  "upperhex = ''0123456789ABCDEF''"

definition is_alnum :: "char \<Rightarrow> bool" where
  "is_alnum c =
     (let k = (of_char c :: nat)
      in 97 \<le> k \<and> k \<le> 122 \<or> 65 \<le> k \<and> k \<le> 90 \<or> 48 \<le> k \<and> k \<le> 57)"

definition shouldEscape :: "char \<Rightarrow> bool" where
  "shouldEscape c =
     (if is_alnum c then False
      else if c = CHR ''-'' \<or> c = CHR ''_'' \<or> c = CHR ''.'' \<or> c = CHR ''~'' then False
      else True)"

fun QueryEscape :: "string \<Rightarrow> string" where
  "QueryEscape [] = []"
| "QueryEscape (c # cs) =
     (if c = CHR '' '' then ''+''
      else if shouldEscape c
        then [CHR ''%'', upperhex ! (of_char c div 16), upperhex ! (of_char c mod 16)]
      else [c]) @ QueryEscape cs"

text \<open>
  \<^verbatim>\<open>func (c *Client) fmtOptions(urlOptions map[string]string) string\<close>. The argument is
  the entries of the Go map as the \<^verbatim>\<open>range\<close> loop of this call yields them: each key
  once, in an order the Go runtime chooses.
\<close>

definition fmtOptions :: "Client \<Rightarrow> (string \<times> string) list \<Rightarrow> string" where
  "fmtOptions c urlOptions =
     (if length urlOptions > 0
      then foldl (\<lambda>options (key, value). options @ ''&'' @ key @ ''='' @ QueryEscape value)
             [] urlOptions
      else [])"

subsection \<open>Error model\<close>

text \<open>\<^verbatim>\<open>func (e Error) Error() string\<close>\<close>

definition Error_Error :: "Error \<Rightarrow> string" where
  "Error_Error e =
     ''code: '' @ show_int (StatusCode e) @ '' | success: '' @ show_bool (Success e)
       @ '' | message: '' @ StatusMessage e"

text \<open>The \<^verbatim>\<open>Error()\<close> text of any error value.\<close>

fun error_text :: "go_error \<Rightarrow> string" where
  "error_text (ErrorString s) = s"
| "error_text (TransportError s) = s"
| "error_text (APIError e) = Error_Error e"

text \<open>
  What the executors take from outside this file, as parameters:
  \<^item> \<open>Do\<close>: the outcome of the \<open>n\<close>-th call of \<^verbatim>\<open>c.http.Do(req)\<close> within one executor call
    (counted from 0), the text of the transport's error or the response;
  \<^item> \<open>NewRequestError\<close>: the error \<^verbatim>\<open>http.NewRequestWithContext\<close> returns for a method and
    a URL, \<open>None\<close> when it builds the request;
  \<^item> \<open>Encode\<close>: the bytes \<^verbatim>\<open>json.NewEncoder(bodyBytes).Encode(body)\<close> writes (the source
    drops its error);
  \<^item> \<open>Decode\<close>: \<^verbatim>\<open>json.NewDecoder(res.Body).Decode(data)\<close>, from the body and the value
    the target holds to the value it holds afterwards and the error;
  \<^item> \<open>DecodeEnvelope\<close>: \<^verbatim>\<open>json.NewDecoder(buf).Decode(&clientError)\<close> on a fresh
    \<^verbatim>\<open>Error\<close>, \<open>None\<close> when it returns an error;
  \<^item> \<open>StatusText\<close>: \<^verbatim>\<open>http.StatusText\<close>.
\<close>

record ('b, 'd) env =
  Do :: "nat \<Rightarrow> http_Client \<Rightarrow> http_Request \<Rightarrow> string + http_Response"
  NewRequestError :: "string \<Rightarrow> string \<Rightarrow> string option"
  Encode :: "'b \<Rightarrow> string"
  Decode :: "Body_reader \<Rightarrow> 'd \<Rightarrow> 'd \<times> string option"
  DecodeEnvelope :: "string \<Rightarrow> Error option"
  StatusText :: "int \<Rightarrow> string"

text \<open>\<^verbatim>\<open>func (c *Client) decodeError(r *http.Response) error\<close>\<close>

definition decodeError :: "('b, 'd) env \<Rightarrow> Client \<Rightarrow> http_Response \<Rightarrow> go_error" where
  "decodeError E c r =
     (case read_error (Body r) of
        Some err \<Rightarrow> ErrorString (''could not read body response: '' @ err)
      | None \<Rightarrow>
          let resBody = content (Body r)
          in if length resBody = 0
             then ErrorString (''['' @ show_int (resStatusCode r) @ '']: empty body ''
                    @ StatusText E (resStatusCode r))
             else (case DecodeEnvelope E resBody of
                     None \<Rightarrow>
                       ErrorString (''couldn't decode error: (''
                         @ show_int (int (length resBody)) @ '') ['' @ resBody @ '']'')
                   | Some clientError \<Rightarrow> APIError clientError))"

subsection \<open>Request executors\<close>

text \<open>
  What an executor call does to the outside, in order: a send of a request through the
  handle's \<^verbatim>\<open>http.Client\<close> as it is then, or a \<^verbatim>\<open>time.Sleep\<close>. The deferred
  \<^verbatim>\<open>res.Body.Close()\<close> calls run when the executor returns, after everything the
  properties below speak of, and are left out.
\<close>

datatype event = Send http_Client http_Request | Sleep int

text \<open>
  \<^verbatim>\<open>http.NewRequest\<close> is \<^verbatim>\<open>http.NewRequestWithContext\<close> with the background context, the
  context the source passes too.
\<close>

definition NewRequestWithContext ::
  "('b, 'd) env \<Rightarrow> string \<Rightarrow> string \<Rightarrow> string \<Rightarrow> string + http_Request" where
  "NewRequestWithContext E method url body =
     (case NewRequestError E method url of
        Some err \<Rightarrow> Inl err
      | None \<Rightarrow> Inr \<lparr>reqMethod = method, reqURL = url, reqBody = body, reqHeader = []\<rparr>)"

definition NewRequest ::
  "('b, 'd) env \<Rightarrow> string \<Rightarrow> string \<Rightarrow> string \<Rightarrow> string + http_Request" where
  "NewRequest E method url body = NewRequestWithContext E method url body"

definition Header_Add :: "http_Request \<Rightarrow> string \<Rightarrow> string \<Rightarrow> http_Request" where
  "Header_Add req key v = req\<lparr>reqHeader := reqHeader req @ [(key, v)]\<rparr>"

text \<open>
  The \<^verbatim>\<open>for\<close> loop of \<^verbatim>\<open>get\<close>, entered at the \<open>n\<close>-th send with the events so far and the
  decode target: the events, the target and the error returned, or \<open>None\<close> when the loop
  never ends.
\<close>

partial_function (option) get_loop ::
  "('b, 'd) env \<Rightarrow> Client \<Rightarrow> http_Request \<Rightarrow> nat \<Rightarrow> event list \<Rightarrow> 'd
     \<Rightarrow> (event list \<times> 'd \<times> go_error option) option" where
  "get_loop E c req n tr data =
     (case Do E n (http c) req of
        Inl err \<Rightarrow> Some (tr @ [Send (http c) req], data, Some (TransportError err))
      | Inr res \<Rightarrow>
          if resStatusCode res = StatusTooManyRequests \<and> autoRetry c
          then get_loop E c req (Suc n)
                 (tr @ [Send (http c) req, Sleep (retryDuration res)]) data
          else if resStatusCode res = StatusNoContent
          then Some (tr @ [Send (http c) req], data, None)
          else if resStatusCode res \<noteq> StatusOK
          then Some (tr @ [Send (http c) req], data, Some (decodeError E c res))
          else (case Decode E (Body res) data of
                  (data', Some err) \<Rightarrow>
                    Some (tr @ [Send (http c) req], data',
                      Some (ErrorString (''could not decode the data: '' @ err)))
                | (data', None) \<Rightarrow> Some (tr @ [Send (http c) req], data', None)))"

text \<open>
  \<^verbatim>\<open>func (c *Client) get(url string, data interface{}) error\<close>: the handle, the events,
  the target and the error when the call returns, \<open>None\<close> when it never does.
\<close>

definition get ::
  "('b, 'd) env \<Rightarrow> Client \<Rightarrow> string \<Rightarrow> 'd
     \<Rightarrow> (Client \<times> event list \<times> 'd \<times> go_error option) option" where
  "get E c url data =
     (if url = [] then Some (c, [], data, Some (ErrorString ''url field is empty''))
      else
        let c' = (if Timeout (http c) = 0
                  then c\<lparr>http := (http c)\<lparr>Timeout := Second * 10\<rparr>\<rparr> else c);
            r0 = NewRequest E MethodGet url [];
            r = (if withContext c' then NewRequestWithContext E MethodGet url [] else r0)
        in case r of
             Inl err \<Rightarrow>
               Some (c', [], data, Some (ErrorString (''could not fetch the url: '' @ err)))
           | Inr req \<Rightarrow>
               map_option (\<lambda>(tr, data', e). (c', tr, data', e))
                 (get_loop E c'
                    (Header_Add req ''content-type'' ''application/json;charset=utf-8'')
                    0 [] data))"

text \<open>The \<^verbatim>\<open>for\<close> loop of \<^verbatim>\<open>request\<close>.\<close>

partial_function (option) request_loop ::
  "('b, 'd) env \<Rightarrow> Client \<Rightarrow> http_Request \<Rightarrow> nat \<Rightarrow> event list \<Rightarrow> 'd
     \<Rightarrow> (event list \<times> 'd \<times> go_error option) option" where
  "request_loop E c req n tr data =
     (case Do E n (http c) req of
        Inl err \<Rightarrow> Some (tr @ [Send (http c) req], data, Some (ErrorString err))
      | Inr res \<Rightarrow>
          if autoRetry c \<and> shouldRetry (resStatusCode res)
          then request_loop E c req (Suc n)
                 (tr @ [Send (http c) req, Sleep (retryDuration res)]) data
          else if resStatusCode res \<ge> StatusMultipleChoices
                  \<or> resStatusCode res < StatusOK
                  \<or> resStatusCode res = StatusNoContent
          then Some (tr @ [Send (http c) req], data, Some (decodeError E c res))
          else (case Decode E (Body res) data of
                  (data', Some err) \<Rightarrow>
                    Some (tr @ [Send (http c) req], data',
                      Some (ErrorString (''could not decode the data: '' @ err)))
                | (data', None) \<Rightarrow> Some (tr @ [Send (http c) req], data', None)))"

text \<open>
  \<^verbatim>\<open>func (c *Client) request(url string, body interface{}, method string,
  data interface{}) error\<close>
\<close>

definition request ::
  "('b, 'd) env \<Rightarrow> Client \<Rightarrow> string \<Rightarrow> 'b \<Rightarrow> string \<Rightarrow> 'd
     \<Rightarrow> (Client \<times> event list \<times> 'd \<times> go_error option) option" where
  "request E c url body method data =
     (if url = [] then Some (c, [], data, Some (ErrorString ''url field is empty''))
      else
        let c' = (if Timeout (http c) = 0
                  then c\<lparr>http := (http c)\<lparr>Timeout := Second * 10\<rparr>\<rparr> else c);
            bodyBytes = Encode E body;
            r0 = NewRequest E method url bodyBytes;
            r = (if withContext c' then NewRequestWithContext E method url bodyBytes else r0)
        in case r of
             Inl err \<Rightarrow>
               Some (c', [], data, Some (ErrorString (''could not fetch the url: '' @ err)))
           | Inr req \<Rightarrow>
               map_option (\<lambda>(tr, data', e). (c', tr, data', e))
                 (request_loop E c'
                    (Header_Add req ''content-type'' ''application/json;charset=utf-8'')
                    0 [] data))"

section \<open>Notions used to state the properties\<close>

text \<open>The number of sends among the events of a call.\<close>

fun is_Send :: "event \<Rightarrow> bool" where
  "is_Send (Send h q) = True"
| "is_Send (Sleep d) = False"

definition sends :: "event list \<Rightarrow> nat" where
  "sends tr = length (filter is_Send tr)"

text \<open>
  The outcome of a send makes the loop of \<^verbatim>\<open>get\<close>, respectively of \<^verbatim>\<open>request\<close>, sleep
  and go round again.
\<close>

definition get_retries :: "Client \<Rightarrow> string + http_Response \<Rightarrow> bool" where
  "get_retries c x =
     (case x of Inl err \<Rightarrow> False
      | Inr res \<Rightarrow> resStatusCode res = StatusTooManyRequests \<and> autoRetry c)"

definition request_retries :: "Client \<Rightarrow> string + http_Response \<Rightarrow> bool" where
  "request_retries c x =
     (case x of Inl err \<Rightarrow> False
      | Inr res \<Rightarrow> autoRetry c \<and> shouldRetry (resStatusCode res))"

text \<open>
  The handle once an executor has passed its timeout check, and the request an executor
  sends for a method, a URL and body bytes.
\<close>

definition applied_timeout :: "Client \<Rightarrow> Client" where
  "applied_timeout c =
     (if Timeout (http c) = 0 then c\<lparr>http := (http c)\<lparr>Timeout := Second * 10\<rparr>\<rparr> else c)"

definition built_request :: "string \<Rightarrow> string \<Rightarrow> string \<Rightarrow> http_Request" where
  "built_request method url body =
     \<lparr>reqMethod = method, reqURL = url, reqBody = body,
      reqHeader = [(''content-type'', ''application/json;charset=utf-8'')]\<rparr>"

text \<open>
  The outcome of the \<open>k\<close>-th send of a call of \<^verbatim>\<open>get\<close>, respectively of \<^verbatim>\<open>request\<close>, that
  reaches its loop.
\<close>

definition get_outcome ::
  "('b, 'd) env \<Rightarrow> Client \<Rightarrow> string \<Rightarrow> nat \<Rightarrow> string + http_Response" where
  "get_outcome E c url k =
     Do E k (http (applied_timeout c)) (built_request MethodGet url [])"

definition request_outcome ::
  "('b, 'd) env \<Rightarrow> Client \<Rightarrow> string \<Rightarrow> 'b \<Rightarrow> string \<Rightarrow> nat \<Rightarrow> string + http_Response" where
  "request_outcome E c url body method k =
     Do E k (http (applied_timeout c)) (built_request method url (Encode E body))"

text \<open>
  Decimal numerals: a header value without its leading sign, the number its digits
  denote, and the integer a signed numeral denotes.
\<close>

definition strip_sign :: "string \<Rightarrow> string" where
  "strip_sign s =
     (case s of [] \<Rightarrow> [] | c # cs \<Rightarrow> if c = CHR ''+'' \<or> c = CHR ''-'' then cs else s)"

definition digits_value :: "string \<Rightarrow> nat" where
  "digits_value s = foldl (\<lambda>a c. a * 10 + (of_char c - 48)) 0 s"

definition signed_value :: "string \<Rightarrow> int" where
  "signed_value s =
     (case s of [] \<Rightarrow> 0
      | c # cs \<Rightarrow> if c = CHR ''-'' then - int (digits_value cs)
                  else int (digits_value (strip_sign s)))"

definition is_numeral32 :: "string \<Rightarrow> bool" where
  "is_numeral32 s =
     (strip_sign s \<noteq> [] \<and> list_all is_digit (strip_sign s)
      \<and> - (2 ^ 31) \<le> signed_value s \<and> signed_value s < 2 ^ 31)"

text \<open>How often a pattern occurs in a string.\<close>

fun occurrences :: "string \<Rightarrow> string \<Rightarrow> nat" where
  "occurrences p [] = (if p = [] then 1 else 0)"
| "occurrences p (c # cs) =
     (if take (length p) (c # cs) = p then 1 else 0) + occurrences p cs"

subsection \<open>Example handles, responses and transports\<close>

text \<open>The handle \<^verbatim>\<open>Init("key")\<close> returns, and the same after \<^verbatim>\<open>SetClientAutoRetry\<close>.\<close>

definition handle_plain :: Client where
  "handle_plain =
     \<lparr>apiKey = ''key'', sessionID = [], autoRetry = False, withContext = False,
      http = \<lparr>Timeout = 0\<rparr>\<rparr>"

definition handle_retry :: Client where
  "handle_retry = SetClientAutoRetry handle_plain"

text \<open>A response with a status code and a body and no header.\<close>

definition response_of :: "int \<Rightarrow> string \<Rightarrow> http_Response" where
  "response_of status body =
     \<lparr>resStatusCode = status, Header = Map.empty,
      Body = \<lparr>content = body, read_error = None\<rparr>\<rparr>"

text \<open>A 429 response with no body and one \<^verbatim>\<open>Retry-After\<close> value.\<close>

definition throttled :: "string \<Rightarrow> http_Response" where
  "throttled v =
     \<lparr>resStatusCode = 429, Header = [''Retry-After'' \<mapsto> [v]],
      Body = \<lparr>content = [], read_error = None\<rparr>\<rparr>"

definition body_fail :: string where
  \<open>body_fail = ''{"status_message":"fail","success":false,"status_code":500}''\<close>

definition body_limit :: string where
  \<open>body_limit = ''{"status_code":25,"status_message":"over limit"}''\<close>

text \<open>
  A mock environment around a script of transport outcomes. Every request builds; the
  body encoder and the target decoder work on text (the target holds the body last
  decoded, and an empty body does not decode); the envelope decoder and the status texts
  agree with \<^verbatim>\<open>encoding/json\<close> and \<^verbatim>\<open>net/http\<close> on the two bodies and the codes used
  below.
\<close>

definition mock_env :: "(nat \<Rightarrow> string + http_Response) \<Rightarrow> (string, string) env" where
  "mock_env script =
     \<lparr>Do = (\<lambda>n h q. script n),
      NewRequestError = (\<lambda>method url. None),
      Encode = (\<lambda>body. body),
      Decode = (\<lambda>b data. if content b = [] then (data, Some ''EOF'') else (content b, None)),
      DecodeEnvelope = (\<lambda>s.
        if s = body_fail
          then Some \<lparr>StatusMessage = ''fail'', Success = False, StatusCode = 500\<rparr>
        else if s = body_limit
          then Some \<lparr>StatusMessage = ''over limit'', Success = False, StatusCode = 25\<rparr>
        else None),
      StatusText = (\<lambda>code.
        if code = 202 then ''Accepted''
        else if code = 204 then ''No Content''
        else if code = 404 then ''Not Found''
        else if code = 429 then ''Too Many Requests''
        else [])\<rparr>"

section \<open>Auxiliary lemmas\<close>

subsection \<open>Numerals\<close>

lemma digit_cases:
  "d < 10 \<Longrightarrow>
     d = 0 \<or> d = 1 \<or> d = 2 \<or> d = 3 \<or> d = 4 \<or> d = 5 \<or> d = 6 \<or> d = 7 \<or> d = 8 \<or> d = (9::nat)"
  by arith

lemma digit_char_is_digit: "d < 10 \<Longrightarrow> is_digit (digit_char d)"
  using digit_cases [of d] by (auto simp: is_digit_def digit_char_def)

lemma digit_char_value: "d < 10 \<Longrightarrow> of_char (digit_char d) - 48 = d"
  using digit_cases [of d] by (auto simp: digit_char_def)

lemma digit_char_not_sign:
  "d < 10 \<Longrightarrow> digit_char d \<noteq> CHR ''+'' \<and> digit_char d \<noteq> CHR ''-''"
  using digit_cases [of d] by (auto simp: digit_char_def)

lemma parse_digits_append:
  "parse_digits (xs @ ys) acc =
     (case parse_digits xs acc of None \<Rightarrow> None | Some a \<Rightarrow> parse_digits ys a)"
  by (induction xs arbitrary: acc) simp_all

lemma show_nat_nonempty: "show_nat n \<noteq> []"
  by (subst show_nat.simps) simp

lemma hd_show_nat: "\<exists>d<10. hd (show_nat n) = digit_char d"
proof (induction n rule: show_nat.induct)
  case (1 n)
  show ?case
  proof (cases "n < 10")
    case True
    then show ?thesis by (subst show_nat.simps) auto
  next
    case False
    with 1 obtain d where "d < 10" "hd (show_nat (n div 10)) = digit_char d" by auto
    with False show ?thesis
      by (subst show_nat.simps) (auto simp: show_nat_nonempty)
  qed
qed

lemma parse_show_nat: "parse_digits (show_nat n) 0 = Some n"
proof (induction n rule: show_nat.induct)
  case (1 n)
  show ?case
  proof (cases "n < 10")
    case True
    then show ?thesis
      by (subst show_nat.simps) (simp add: digit_char_is_digit digit_char_value)
  next
    case False
    with 1 have "parse_digits (show_nat (n div 10)) 0 = Some (n div 10)" by simp
    with False show ?thesis
      by (subst show_nat.simps)
         (simp add: parse_digits_append digit_char_is_digit digit_char_value)
  qed
qed

lemma ParseUint_show_nat: "ParseUint (show_nat n) = Some n"
  by (simp add: ParseUint_def show_nat_nonempty parse_show_nat)

lemma ParseInt32_show_int:
  assumes "- (2 ^ 31) \<le> n" "n < 2 ^ 31"
  shows "ParseInt32 (show_int n) = Some n"
proof (cases "n < 0")
  case True
  with assms show ?thesis
    by (simp add: ParseInt32_def show_int_def ParseUint_show_nat)
next
  case False
  obtain d where d: "d < 10" "hd (show_nat (nat n)) = digit_char d"
    using hd_show_nat by blast
  with False assms digit_char_not_sign [of d] show ?thesis
    by (simp add: ParseInt32_def show_int_def ParseUint_show_nat show_nat_nonempty)
qed

lemma ParseInt32_out_of_range:
  assumes "n < - (2 ^ 31) \<or> 2 ^ 31 \<le> n"
  shows "ParseInt32 (show_int n) = None"
proof (cases "n < 0")
  case True
  with assms show ?thesis
    by (simp add: ParseInt32_def show_int_def ParseUint_show_nat)
next
  case False
  obtain d where d: "d < 10" "hd (show_nat (nat n)) = digit_char d"
    using hd_show_nat by blast
  with False assms digit_char_not_sign [of d] show ?thesis
    by (simp add: ParseInt32_def show_int_def ParseUint_show_nat show_nat_nonempty)
qed

lemma parse_digits_value:
  "list_all is_digit s \<Longrightarrow>
     parse_digits s acc = Some (foldl (\<lambda>a c. a * 10 + (of_char c - 48)) acc s)"
  by (induction s arbitrary: acc) simp_all

lemma parse_digits_None: "\<not> list_all is_digit s \<Longrightarrow> parse_digits s acc = None"
  by (induction s arbitrary: acc) auto

lemma ParseUint_numeral:
  "ParseUint s = (if s \<noteq> [] \<and> list_all is_digit s then Some (digits_value s) else None)"
  by (simp add: ParseUint_def digits_value_def parse_digits_value parse_digits_None)

lemma ParseInt32_numeral:
  "ParseInt32 s = (if is_numeral32 s then Some (signed_value s) else None)"
proof (cases s)
  case Nil
  then show ?thesis by (simp add: ParseInt32_def is_numeral32_def strip_sign_def)
next
  case (Cons c cs)
  then show ?thesis
    by (auto simp: ParseInt32_def is_numeral32_def strip_sign_def signed_value_def
          ParseUint_numeral Let_def)
qed

lemma ParseInt32_range:
  "ParseInt32 s = Some n \<Longrightarrow> - (2 ^ 31) \<le> n \<and> n < 2 ^ 31"
  by (simp add: ParseInt32_numeral is_numeral32_def split: if_splits)

text \<open>The duration \<^verbatim>\<open>retryDuration\<close> computes fits Go's \<^verbatim>\<open>int64\<close>: no wrap-around.\<close>

lemma retryDuration_int64: "- (2 ^ 63) \<le> retryDuration r \<and> retryDuration r < 2 ^ 63"
proof (cases "ParseInt32 (Header_Get (Header r) ''Retry-After'')")
  case None
  then show ?thesis
    by (simp add: retryDuration_def defaultRetryDuration_def Second_def Let_def)
next
  case (Some n)
  then have "- (2 ^ 31) \<le> n \<and> n < 2 ^ 31" by (rule ParseInt32_range)
  with Some show ?thesis
    by (simp add: retryDuration_def defaultRetryDuration_def Second_def Let_def)
qed

lemma show_int_nonempty: "show_int n \<noteq> []"
  by (simp add: show_int_def show_nat_nonempty)

lemma Header_Get_throttled: "Header_Get (Header (throttled v)) ''Retry-After'' = v"
  by (simp add: throttled_def Header_Get_def)

lemma show_int_examples:
  "show_int 3 = ''3''" "show_int (- 3) = ''-3''" "show_int 3000000000 = ''3000000000''"
  by (simp_all add: show_int_def show_nat.simps digit_char_def)

subsection \<open>Option formatting\<close>

lemma foldl_append_concat:
  "foldl (\<lambda>acc x. acc @ f x) a xs = a @ concat (map f xs)"
  by (induction xs arbitrary: a) simp_all

lemma QueryEscape_reserved: "QueryEscape ''a/b?c=d&e f~%'' = ''a%2Fb%3Fc%3Dd%26e+f~%25''"
  by (simp add: shouldEscape_def is_alnum_def upperhex_def)

subsection \<open>The loop of \<open>get\<close>\<close>

lemma get_loop_retry:
  assumes "Do E n (http c) req = Inr res"
    and "resStatusCode res = StatusTooManyRequests" and "autoRetry c"
  shows "get_loop E c req n tr d =
           get_loop E c req (Suc n) (tr @ [Send (http c) req, Sleep (retryDuration res)]) d"
  using assms by (subst get_loop.simps) simp

lemma get_loop_transport_error:
  assumes "Do E n (http c) req = Inl err"
  shows "get_loop E c req n tr d = Some (tr @ [Send (http c) req], d, Some (TransportError err))"
  using assms by (subst get_loop.simps) simp

lemma get_loop_no_content:
  assumes "Do E n (http c) req = Inr res" and "resStatusCode res = StatusNoContent"
  shows "get_loop E c req n tr d = Some (tr @ [Send (http c) req], d, None)"
  using assms
  by (subst get_loop.simps) (simp add: StatusNoContent_def StatusTooManyRequests_def)

lemma get_loop_error_status:
  assumes "Do E n (http c) req = Inr res"
    and "\<not> (resStatusCode res = StatusTooManyRequests \<and> autoRetry c)"
    and "resStatusCode res \<noteq> StatusNoContent" and "resStatusCode res \<noteq> StatusOK"
  shows "get_loop E c req n tr d =
           Some (tr @ [Send (http c) req], d, Some (decodeError E c res))"
  using assms by (subst get_loop.simps) auto

lemma get_loop_ok:
  assumes "Do E n (http c) req = Inr res" and "resStatusCode res = StatusOK"
  shows "get_loop E c req n tr d =
           (case Decode E (Body res) d of
              (d', Some err) \<Rightarrow>
                Some (tr @ [Send (http c) req], d',
                  Some (ErrorString (''could not decode the data: '' @ err)))
            | (d', None) \<Rightarrow> Some (tr @ [Send (http c) req], d', None))"
  using assms
  by (subst get_loop.simps)
     (simp add: StatusOK_def StatusNoContent_def StatusTooManyRequests_def)

lemma get_loop_stop:
  assumes "\<not> get_retries c (Do E n (http c) req)"
  shows "\<exists>d' e. get_loop E c req n tr d = Some (tr @ [Send (http c) req], d', e)"
  using assms
  by (subst get_loop.simps)
     (auto simp: get_retries_def split: sum.splits prod.splits option.splits)

lemma get_loop_returns:
  assumes "\<forall>i<k. get_retries c (Do E (n + i) (http c) req)"
    and "\<not> get_retries c (Do E (n + k) (http c) req)"
  shows "\<exists>tr' d' e. get_loop E c req n tr d = Some (tr', d', e)
           \<and> sends tr' = sends tr + Suc k"
  using assms
proof (induction k arbitrary: n tr)
  case 0
  then obtain d' e where "get_loop E c req n tr d = Some (tr @ [Send (http c) req], d', e)"
    using get_loop_stop [of c E n req tr d] by auto
  then show ?case by (simp add: sends_def)
next
  case (Suc k)
  from Suc.prems(1) have "get_retries c (Do E n (http c) req)" by force
  then obtain res where res: "Do E n (http c) req = Inr res"
    "resStatusCode res = StatusTooManyRequests" "autoRetry c"
    by (auto simp: get_retries_def split: sum.splits)
  have "\<forall>i<k. get_retries c (Do E (Suc n + i) (http c) req)"
    using Suc.prems(1) by (metis Suc_less_eq add_Suc_shift)
  moreover have "\<not> get_retries c (Do E (Suc n + k) (http c) req)"
    using Suc.prems(2) by simp
  ultimately obtain tr' d' e where
    "get_loop E c req (Suc n) (tr @ [Send (http c) req, Sleep (retryDuration res)]) d
       = Some (tr', d', e)"
    "sends tr' = sends (tr @ [Send (http c) req, Sleep (retryDuration res)]) + Suc k"
    using Suc.IH by blast
  then show ?case
    by (simp add: get_loop_retry [OF res] sends_def)
qed

lemma get_loop_Some_stops:
  assumes "get_loop E c req n tr d = Some y"
  shows "\<exists>k. \<not> get_retries c (Do E (n + k) (http c) req)"
proof (rule get_loop.raw_induct
    [where P = "\<lambda>E c req n tr d y. \<exists>k. \<not> get_retries c (Do E (n + k) (http c) req)",
     OF _ assms], goal_cases)
  case (1 f E c req n tr data y)
  show ?case
  proof (cases "get_retries c (Do E n (http c) req)")
    case True
    then obtain res where res: "Do E n (http c) req = Inr res"
      "resStatusCode res = StatusTooManyRequests" "autoRetry c"
      by (auto simp: get_retries_def split: sum.splits)
    with 1(2) have "f E c req (Suc n)
        (tr @ [Send (http c) req, Sleep (retryDuration res)]) data = Some y" by simp
    then obtain k where "\<not> get_retries c (Do E (Suc n + k) (http c) req)"
      using 1(1) by blast
    then have "\<not> get_retries c (Do E (n + Suc k) (http c) req)" by simp
    then show ?thesis by blast
  next
    case False
    then have "\<not> get_retries c (Do E (n + 0) (http c) req)" by simp
    then show ?thesis by blast
  qed
qed

lemma get_loop_returns_iff:
  "(\<exists>y. get_loop E c req n tr d = Some y)
     = (\<exists>k. \<not> get_retries c (Do E (n + k) (http c) req))"
proof
  assume "\<exists>y. get_loop E c req n tr d = Some y"
  then show "\<exists>k. \<not> get_retries c (Do E (n + k) (http c) req)"
    by (auto dest: get_loop_Some_stops)
next
  assume "\<exists>k. \<not> get_retries c (Do E (n + k) (http c) req)"
  then obtain k where "\<not> get_retries c (Do E (n + k) (http c) req)"
    "\<forall>i<k. get_retries c (Do E (n + i) (http c) req)"
    using exists_least_iff [of "\<lambda>k. \<not> get_retries c (Do E (n + k) (http c) req)"] by auto
  then show "\<exists>y. get_loop E c req n tr d = Some y"
    using get_loop_returns [of k c E n req tr d] by auto
qed

text \<open>Every event the loop adds is a send through the handle's client or a sleep.\<close>

lemma get_loop_events:
  assumes "get_loop E c req n tr d = Some y"
  shows "\<exists>tr'. fst y = tr @ tr' \<and> list_all (\<lambda>ev. ev = Send (http c) req \<or> \<not> is_Send ev) tr'"
proof (rule get_loop.raw_induct
    [where P = "\<lambda>E c req n tr d y.
        \<exists>tr'. fst y = tr @ tr' \<and> list_all (\<lambda>ev. ev = Send (http c) req \<or> \<not> is_Send ev) tr'",
     OF _ assms], goal_cases)
  case (1 f E c req n tr data y)
  show ?case
  proof (cases "get_retries c (Do E n (http c) req)")
    case True
    then obtain res where res: "Do E n (http c) req = Inr res"
      "resStatusCode res = StatusTooManyRequests" "autoRetry c"
      by (auto simp: get_retries_def split: sum.splits)
    with 1(2) have "f E c req (Suc n)
        (tr @ [Send (http c) req, Sleep (retryDuration res)]) data = Some y" by simp
    then obtain tr' where "fst y = (tr @ [Send (http c) req, Sleep (retryDuration res)]) @ tr'"
      "list_all (\<lambda>ev. ev = Send (http c) req \<or> \<not> is_Send ev) tr'"
      using 1(1) by blast
    then have "fst y = tr @ ([Send (http c) req, Sleep (retryDuration res)] @ tr')
      \<and> list_all (\<lambda>ev. ev = Send (http c) req \<or> \<not> is_Send ev)
          ([Send (http c) req, Sleep (retryDuration res)] @ tr')"
      by simp
    then show ?thesis by blast
  next
    case False
    with 1(2) have "fst y = tr @ [Send (http c) req]"
      by (auto simp: get_retries_def split: sum.splits if_splits prod.splits option.splits)
    then show ?thesis by simp
  qed
qed

text \<open>\<open>get\<close> past its two early returns is its loop, entered at the first send.\<close>

lemma get_enters_loop:
  assumes "url \<noteq> []" and "NewRequestError E MethodGet url = None"
  shows "get E c url d =
           map_option (\<lambda>(tr, d', e). (applied_timeout c, tr, d', e))
             (get_loop E (applied_timeout c) (built_request MethodGet url []) 0 [] d)"
  using assms
  by (simp add: get_def Let_def NewRequest_def NewRequestWithContext_def
        applied_timeout_def built_request_def Header_Add_def)

lemma get_request_error:
  assumes "url \<noteq> []" and "NewRequestError E MethodGet url = Some err"
  shows "get E c url d =
           Some (applied_timeout c, [], d,
             Some (ErrorString (''could not fetch the url: '' @ err)))"
  using assms
  by (simp add: get_def Let_def NewRequest_def NewRequestWithContext_def applied_timeout_def)

lemma get_empty_url:
  "get E c [] d = Some (c, [], d, Some (ErrorString ''url field is empty''))"
  by (simp add: get_def)

subsection \<open>The loop of \<open>request\<close>\<close>

lemma request_loop_retry:
  assumes "Do E n (http c) req = Inr res"
    and "autoRetry c" and "shouldRetry (resStatusCode res)"
  shows "request_loop E c req n tr d =
           request_loop E c req (Suc n)
             (tr @ [Send (http c) req, Sleep (retryDuration res)]) d"
  using assms by (subst request_loop.simps) simp

lemma request_loop_transport_error:
  assumes "Do E n (http c) req = Inl err"
  shows "request_loop E c req n tr d =
           Some (tr @ [Send (http c) req], d, Some (ErrorString err))"
  using assms by (subst request_loop.simps) simp

lemma request_loop_error_status:
  assumes "Do E n (http c) req = Inr res"
    and "\<not> (autoRetry c \<and> shouldRetry (resStatusCode res))"
    and "resStatusCode res \<ge> StatusMultipleChoices \<or> resStatusCode res < StatusOK
           \<or> resStatusCode res = StatusNoContent"
  shows "request_loop E c req n tr d =
           Some (tr @ [Send (http c) req], d, Some (decodeError E c res))"
  using assms by (subst request_loop.simps) auto

lemma request_loop_ok:
  assumes "Do E n (http c) req = Inr res"
    and "\<not> (autoRetry c \<and> shouldRetry (resStatusCode res))"
    and "StatusOK \<le> resStatusCode res" and "resStatusCode res < StatusMultipleChoices"
    and "resStatusCode res \<noteq> StatusNoContent"
  shows "request_loop E c req n tr d =
           (case Decode E (Body res) d of
              (d', Some err) \<Rightarrow>
                Some (tr @ [Send (http c) req], d',
                  Some (ErrorString (''could not decode the data: '' @ err)))
            | (d', None) \<Rightarrow> Some (tr @ [Send (http c) req], d', None))"
  using assms by (subst request_loop.simps) auto

lemma request_loop_stop:
  assumes "\<not> request_retries c (Do E n (http c) req)"
  shows "\<exists>d' e. request_loop E c req n tr d = Some (tr @ [Send (http c) req], d', e)"
  using assms
  by (subst request_loop.simps)
     (auto simp: request_retries_def split: sum.splits prod.splits option.splits)

lemma request_loop_returns:
  assumes "\<forall>i<k. request_retries c (Do E (n + i) (http c) req)"
    and "\<not> request_retries c (Do E (n + k) (http c) req)"
  shows "\<exists>tr' d' e. request_loop E c req n tr d = Some (tr', d', e)
           \<and> sends tr' = sends tr + Suc k"
  using assms
proof (induction k arbitrary: n tr)
  case 0
  then obtain d' e where
    "request_loop E c req n tr d = Some (tr @ [Send (http c) req], d', e)"
    using request_loop_stop [of c E n req tr d] by auto
  then show ?case by (simp add: sends_def)
next
  case (Suc k)
  from Suc.prems(1) have "request_retries c (Do E n (http c) req)" by force
  then obtain res where res: "Do E n (http c) req = Inr res"
    "autoRetry c" "shouldRetry (resStatusCode res)"
    by (auto simp: request_retries_def split: sum.splits)
  have "\<forall>i<k. request_retries c (Do E (Suc n + i) (http c) req)"
    using Suc.prems(1) by (metis Suc_less_eq add_Suc_shift)
  moreover have "\<not> request_retries c (Do E (Suc n + k) (http c) req)"
    using Suc.prems(2) by simp
  ultimately obtain tr' d' e where
    "request_loop E c req (Suc n) (tr @ [Send (http c) req, Sleep (retryDuration res)]) d
       = Some (tr', d', e)"
    "sends tr' = sends (tr @ [Send (http c) req, Sleep (retryDuration res)]) + Suc k"
    using Suc.IH by blast
  then show ?case
    by (simp add: request_loop_retry [OF res] sends_def)
qed

lemma request_loop_Some_stops:
  assumes "request_loop E c req n tr d = Some y"
  shows "\<exists>k. \<not> request_retries c (Do E (n + k) (http c) req)"
proof (rule request_loop.raw_induct
    [where P = "\<lambda>E c req n tr d y. \<exists>k. \<not> request_retries c (Do E (n + k) (http c) req)",
     OF _ assms], goal_cases)
  case (1 f E c req n tr data y)
  show ?case
  proof (cases "request_retries c (Do E n (http c) req)")
    case True
    then obtain res where res: "Do E n (http c) req = Inr res"
      "autoRetry c" "shouldRetry (resStatusCode res)"
      by (auto simp: request_retries_def split: sum.splits)
    with 1(2) have "f E c req (Suc n)
        (tr @ [Send (http c) req, Sleep (retryDuration res)]) data = Some y" by simp
    then obtain k where "\<not> request_retries c (Do E (Suc n + k) (http c) req)"
      using 1(1) by blast
    then have "\<not> request_retries c (Do E (n + Suc k) (http c) req)" by simp
    then show ?thesis by blast
  next
    case False
    then have "\<not> request_retries c (Do E (n + 0) (http c) req)" by simp
    then show ?thesis by blast
  qed
qed

lemma request_loop_returns_iff:
  "(\<exists>y. request_loop E c req n tr d = Some y)
     = (\<exists>k. \<not> request_retries c (Do E (n + k) (http c) req))"
proof
  assume "\<exists>y. request_loop E c req n tr d = Some y"
  then show "\<exists>k. \<not> request_retries c (Do E (n + k) (http c) req)"
    by (auto dest: request_loop_Some_stops)
next
  assume "\<exists>k. \<not> request_retries c (Do E (n + k) (http c) req)"
  then obtain k where "\<not> request_retries c (Do E (n + k) (http c) req)"
    "\<forall>i<k. request_retries c (Do E (n + i) (http c) req)"
    using exists_least_iff [of "\<lambda>k. \<not> request_retries c (Do E (n + k) (http c) req)"]
    by auto
  then show "\<exists>y. request_loop E c req n tr d = Some y"
    using request_loop_returns [of k c E n req tr d] by auto
qed

lemma request_loop_events:
  assumes "request_loop E c req n tr d = Some y"
  shows "\<exists>tr'. fst y = tr @ tr' \<and> list_all (\<lambda>ev. ev = Send (http c) req \<or> \<not> is_Send ev) tr'"
proof (rule request_loop.raw_induct
    [where P = "\<lambda>E c req n tr d y.
        \<exists>tr'. fst y = tr @ tr' \<and> list_all (\<lambda>ev. ev = Send (http c) req \<or> \<not> is_Send ev) tr'",
     OF _ assms], goal_cases)
  case (1 f E c req n tr data y)
  show ?case
  proof (cases "request_retries c (Do E n (http c) req)")
    case True
    then obtain res where res: "Do E n (http c) req = Inr res"
      "autoRetry c" "shouldRetry (resStatusCode res)"
      by (auto simp: request_retries_def split: sum.splits)
    with 1(2) have "f E c req (Suc n)
        (tr @ [Send (http c) req, Sleep (retryDuration res)]) data = Some y" by simp
    then obtain tr' where "fst y = (tr @ [Send (http c) req, Sleep (retryDuration res)]) @ tr'"
      "list_all (\<lambda>ev. ev = Send (http c) req \<or> \<not> is_Send ev) tr'"
      using 1(1) by blast
    then have "fst y = tr @ ([Send (http c) req, Sleep (retryDuration res)] @ tr')
      \<and> list_all (\<lambda>ev. ev = Send (http c) req \<or> \<not> is_Send ev)
          ([Send (http c) req, Sleep (retryDuration res)] @ tr')"
      by simp
    then show ?thesis by blast
  next
    case False
    with 1(2) have "fst y = tr @ [Send (http c) req]"
      by (auto simp: request_retries_def split: sum.splits if_splits prod.splits option.splits)
    then show ?thesis by simp
  qed
qed

lemma request_enters_loop:
  assumes "url \<noteq> []" and "NewRequestError E method url = None"
  shows "request E c url body method d =
           map_option (\<lambda>(tr, d', e). (applied_timeout c, tr, d', e))
             (request_loop E (applied_timeout c)
                (built_request method url (Encode E body)) 0 [] d)"
  using assms
  by (simp add: request_def Let_def NewRequest_def NewRequestWithContext_def
        applied_timeout_def built_request_def Header_Add_def)

lemma request_request_error:
  assumes "url \<noteq> []" and "NewRequestError E method url = Some err"
  shows "request E c url body method d =
           Some (applied_timeout c, [], d,
             Some (ErrorString (''could not fetch the url: '' @ err)))"
  using assms
  by (simp add: request_def Let_def NewRequest_def NewRequestWithContext_def
        applied_timeout_def)

lemma request_empty_url:
  "request E c [] body method d = Some (c, [], d, Some (ErrorString ''url field is empty''))"
  by (simp add: request_def)

subsection \<open>Whole calls\<close>

lemma applied_timeout_flags:
  "autoRetry (applied_timeout c) = autoRetry c"
  "withContext (applied_timeout c) = withContext c"
  "apiKey (applied_timeout c) = apiKey c"
  "sessionID (applied_timeout c) = sessionID c"
  by (simp_all add: applied_timeout_def)

lemma retries_applied_timeout:
  "get_retries (applied_timeout c) x = get_retries c x"
  "request_retries (applied_timeout c) x = request_retries c x"
  by (simp_all add: get_retries_def request_retries_def applied_timeout_flags
        split: sum.splits)

lemma get_returns_iff:
  assumes "url \<noteq> []" and "NewRequestError E MethodGet url = None"
  shows "(\<exists>r. get E c url d = Some r) = (\<exists>k. \<not> get_retries c (get_outcome E c url k))"
  using get_loop_returns_iff
    [of E "applied_timeout c" "built_request MethodGet url []" 0 "[]" d]
  by (simp add: get_enters_loop [OF assms] get_outcome_def retries_applied_timeout)

lemma get_returns_after:
  assumes "url \<noteq> []" and "NewRequestError E MethodGet url = None"
    and "\<forall>i<k. get_retries c (get_outcome E c url i)"
    and "\<not> get_retries c (get_outcome E c url k)"
  shows "\<exists>c' tr d' e. get E c url d = Some (c', tr, d', e) \<and> sends tr = Suc k"
  using get_loop_returns
    [of k "applied_timeout c" E 0 "built_request MethodGet url []" "[]" d] assms(3,4)
  by (auto simp: get_enters_loop [OF assms(1,2)] get_outcome_def retries_applied_timeout
        sends_def)

lemma request_returns_iff:
  assumes "url \<noteq> []" and "NewRequestError E method url = None"
  shows "(\<exists>r. request E c url body method d = Some r)
           = (\<exists>k. \<not> request_retries c (request_outcome E c url body method k))"
  using request_loop_returns_iff
    [of E "applied_timeout c" "built_request method url (Encode E body)" 0 "[]" d]
  by (simp add: request_enters_loop [OF assms] request_outcome_def retries_applied_timeout)

lemma request_returns_after:
  assumes "url \<noteq> []" and "NewRequestError E method url = None"
    and "\<forall>i<k. request_retries c (request_outcome E c url body method i)"
    and "\<not> request_retries c (request_outcome E c url body method k)"
  shows "\<exists>c' tr d' e. request E c url body method d = Some (c', tr, d', e) \<and> sends tr = Suc k"
  using request_loop_returns
    [of k "applied_timeout c" E 0 "built_request method url (Encode E body)" "[]" d]
    assms(3,4)
  by (auto simp: request_enters_loop [OF assms(1,2)] request_outcome_def
        retries_applied_timeout sends_def)

subsection \<open>The example environment\<close>

lemma mock_env_simps:
  "Do (mock_env script) n h q = script n"
  "NewRequestError (mock_env script) method url = None"
  "Encode (mock_env script) body = body"
  by (simp_all add: mock_env_def)

lemma handle_retry_flag: "autoRetry handle_retry" "\<not> autoRetry handle_plain"
  by (simp_all add: handle_retry_def handle_plain_def SetClientAutoRetry_def)

lemma throttled_status: "resStatusCode (throttled v) = 429" "resStatusCode (response_of s b) = s"
  by (simp_all add: throttled_def response_of_def)

lemma mock_env_decoders:
  "Decode (mock_env script) b data =
     (if content b = [] then (data, Some ''EOF'') else (content b, None))"
  "DecodeEnvelope (mock_env script) s =
     (if s = body_fail
        then Some \<lparr>StatusMessage = ''fail'', Success = False, StatusCode = 500\<rparr>
      else if s = body_limit
        then Some \<lparr>StatusMessage = ''over limit'', Success = False, StatusCode = 25\<rparr>
      else None)"
  "StatusText (mock_env script) code =
     (if code = 202 then ''Accepted''
      else if code = 204 then ''No Content''
      else if code = 404 then ''Not Found''
      else if code = 429 then ''Too Many Requests''
      else [])"
  by (simp_all add: mock_env_def)

lemma example_responses:
  "Body (throttled v) = \<lparr>content = [], read_error = None\<rparr>"
  "Body (response_of s b) = \<lparr>content = b, read_error = None\<rparr>"
  "retryDuration (throttled ''3'') = 3 * Second"
  "retryDuration (response_of s b) = 5 * Second"
  by (simp_all add: throttled_def response_of_def retryDuration_def Header_Get_def
        ParseInt32_def ParseUint_def is_digit_def defaultRetryDuration_def)

lemma show_int_status:
  "show_int 202 = ''202''" "show_int 204 = ''204''" "show_int 429 = ''429''"
  "show_int 404 = ''404''" "show_int 500 = ''500''" "show_int 25 = ''25''"
  "show_int 3 = ''3''"
  by (simp_all add: show_int_def show_nat.simps digit_char_def)

lemmas status_defs = StatusOK_def StatusAccepted_def StatusNoContent_def
  StatusMultipleChoices_def StatusTooManyRequests_def

text \<open>
  \<^verbatim>\<open>get\<close> does not call \<^verbatim>\<open>shouldRetry\<close>: it compares the status with 429 only, and a 202
  response ends the call with what \<^verbatim>\<open>decodeError\<close> yields, whatever the auto-retry flag.
\<close>

lemma get_loop_accepted:
  assumes "Do E n (http c) req = Inr res" and "resStatusCode res = StatusAccepted"
  shows "get_loop E c req n tr d =
           Some (tr @ [Send (http c) req], d, Some (decodeError E c res))"
  using assms
  by (intro get_loop_error_status)
     (simp_all add: StatusAccepted_def StatusTooManyRequests_def StatusNoContent_def
        StatusOK_def)

subsection \<open>The handle and the events of a call\<close>

lemma get_handle:
  assumes "get E c url d = Some (c', tr, d', e)"
  shows "c' = (if url = [] then c else applied_timeout c)"
proof (cases "url = []")
  case True
  with assms show ?thesis by (simp add: get_empty_url)
next
  case False
  show ?thesis
  proof (cases "NewRequestError E MethodGet url")
    case None
    with False assms show ?thesis by (auto simp: get_enters_loop)
  next
    case (Some err)
    with False assms show ?thesis by (simp add: get_request_error)
  qed
qed

lemma request_handle:
  assumes "request E c url body method d = Some (c', tr, d', e)"
  shows "c' = (if url = [] then c else applied_timeout c)"
proof (cases "url = []")
  case True
  with assms show ?thesis by (simp add: request_empty_url)
next
  case False
  show ?thesis
  proof (cases "NewRequestError E method url")
    case None
    with False assms show ?thesis by (auto simp: request_enters_loop)
  next
    case (Some err)
    with False assms show ?thesis by (simp add: request_request_error)
  qed
qed

lemma get_events:
  assumes "get E c url d = Some (c', tr, d', e)"
  shows "list_all (\<lambda>ev. ev = Send (http c') (built_request MethodGet url []) \<or> \<not> is_Send ev) tr"
proof (cases "url = []")
  case True
  with assms show ?thesis by (simp add: get_empty_url)
next
  case False
  show ?thesis
  proof (cases "NewRequestError E MethodGet url")
    case None
    with False assms have
      "get_loop E (applied_timeout c) (built_request MethodGet url []) 0 [] d
         = Some (tr, d', e)" and "c' = applied_timeout c"
      by (auto simp: get_enters_loop)
    then show ?thesis using get_loop_events by fastforce
  next
    case (Some err)
    with False assms show ?thesis by (simp add: get_request_error)
  qed
qed

lemma request_events:
  assumes "request E c url body method d = Some (c', tr, d', e)"
  shows "list_all (\<lambda>ev. ev = Send (http c') (built_request method url (Encode E body))
                        \<or> \<not> is_Send ev) tr"
proof (cases "url = []")
  case True
  with assms show ?thesis by (simp add: request_empty_url)
next
  case False
  show ?thesis
  proof (cases "NewRequestError E method url")
    case None
    with False assms have
      "request_loop E (applied_timeout c) (built_request method url (Encode E body)) 0 [] d
         = Some (tr, d', e)" and "c' = applied_timeout c"
      by (auto simp: request_enters_loop)
    then show ?thesis using request_loop_events by fastforce
  next
    case (Some err)
    with False assms show ?thesis by (simp add: request_request_error)
  qed
qed

lemma applied_timeout_zero:
  "Timeout (http c) = 0 \<Longrightarrow> applied_timeout c = c\<lparr>http := (http c)\<lparr>Timeout := Second * 10\<rparr>\<rparr>"
  "Timeout (http c) \<noteq> 0 \<Longrightarrow> applied_timeout c = c"
  "Timeout (http (applied_timeout c)) \<noteq> 0"
  by (simp_all add: applied_timeout_def Second_def)

section \<open>Properties\<close>

text \<open>
  Claim C8. \<open>shouldRetry\<close> is true exactly for the status codes 202 and 429 and false for
  every other status code, among them 200 and 404.
\<close>

theorem shouldRetry_exactly_202_429:
  "shouldRetry status = (status = 202 \<or> status = 429)
   \<and> shouldRetry 202 \<and> shouldRetry 429 \<and> \<not> shouldRetry 200 \<and> \<not> shouldRetry 404"
  by (simp add: shouldRetry_def StatusAccepted_def StatusTooManyRequests_def)

text \<open>
  Claim C3, as the code has it. \<open>retryDuration\<close> returns \<open>n\<close> seconds when the first
  \<^verbatim>\<open>Retry-After\<close> value is an optional sign and one or more decimal digits that denote an
  integer \<open>n\<close> with \<open>-2^31 \<le> n < 2^31\<close>, a negative \<open>n\<close> included; it returns the default of
  5 seconds in every other case: no such header, an empty value, a character that is not
  a digit, or a number outside that range. In particular the decimal numeral of every
  \<open>n\<close> in the range gives \<open>n\<close> seconds.
\<close>

theorem retryDuration_signed_numeral:
  "retryDuration r =
     (if is_numeral32 (Header_Get (Header r) ''Retry-After'')
      then signed_value (Header_Get (Header r) ''Retry-After'') * Second
      else 5 * Second)
   \<and> (Header r ''Retry-After'' = None \<longrightarrow> retryDuration r = 5 * Second)
   \<and> (- (2 ^ 31) \<le> n \<and> n < 2 ^ 31 \<longrightarrow> retryDuration (throttled (show_int n)) = n * Second)
   \<and> (n < - (2 ^ 31) \<or> 2 ^ 31 \<le> n \<longrightarrow> retryDuration (throttled (show_int n)) = 5 * Second)
   \<and> (\<not> list_all is_digit (strip_sign v) \<longrightarrow> retryDuration (throttled v) = 5 * Second)"
proof (intro conjI impI)
  show "retryDuration r =
     (if is_numeral32 (Header_Get (Header r) ''Retry-After'')
      then signed_value (Header_Get (Header r) ''Retry-After'') * Second
      else 5 * Second)"
    by (auto simp: retryDuration_def Let_def ParseInt32_numeral defaultRetryDuration_def
          is_numeral32_def strip_sign_def)
next
  assume "Header r ''Retry-After'' = None"
  then show "retryDuration r = 5 * Second"
    by (simp add: retryDuration_def Header_Get_def defaultRetryDuration_def)
next
  assume "- (2 ^ 31) \<le> n \<and> n < 2 ^ 31"
  then show "retryDuration (throttled (show_int n)) = n * Second"
    by (simp add: retryDuration_def Header_Get_throttled ParseInt32_show_int Let_def
          show_int_nonempty)
next
  assume "n < - (2 ^ 31) \<or> 2 ^ 31 \<le> n"
  then show "retryDuration (throttled (show_int n)) = 5 * Second"
    by (simp add: retryDuration_def Header_Get_throttled ParseInt32_out_of_range Let_def
          defaultRetryDuration_def)
next
  assume "\<not> list_all is_digit (strip_sign v)"
  then show "retryDuration (throttled v) = 5 * Second"
    by (simp add: retryDuration_def Header_Get_throttled ParseInt32_numeral Let_def
          defaultRetryDuration_def is_numeral32_def)
qed

text \<open>
  The values \<^verbatim>\<open>3\<close>, \<^verbatim>\<open>-3\<close>, \<^verbatim>\<open>3000000000\<close> and \<^verbatim>\<open>soon\<close>, and a response without the
  header.
\<close>

theorem retryDuration_signed_numeral_witness:
  "retryDuration (throttled ''3'') = 3 * Second
   \<and> retryDuration (throttled ''-3'') = - 3 * Second
   \<and> retryDuration (throttled ''3000000000'') = 5 * Second
   \<and> retryDuration (throttled ''soon'') = 5 * Second
   \<and> retryDuration (response_of 429 []) = 5 * Second"
  using retryDuration_signed_numeral [of "throttled ''3''" 3 "''soon''"]
    retryDuration_signed_numeral [of "response_of 429 []" "- 3" "''soon''"]
    retryDuration_signed_numeral [of "response_of 429 []" 3000000000 "''soon''"]
  by (simp add: show_int_examples strip_sign_def is_digit_def response_of_def)

text \<open>
  The value \<^verbatim>\<open>-3\<close> is not a non-negative integer, and the result is not the default: it
  is minus three seconds.
\<close>

theorem retryDuration_negative_counterexample:
  "retryDuration (throttled ''-3'') = - 3 * Second
   \<and> retryDuration (throttled ''-3'') \<noteq> 5 * Second"
  by (simp add: retryDuration_def Header_Get_throttled ParseInt32_def ParseUint_def
        is_digit_def Second_def)

text \<open>
  Claim C4, as the code has it. For every list of entries, in whatever order the map
  yields them, \<open>fmtOptions\<close> is the concatenation over the entries of \<^verbatim>\<open>&\<close>, the key,
  \<^verbatim>\<open>=\<close> and the query-escaped value. \<^verbatim>\<open>url.QueryEscape\<close> writes a space as \<^verbatim>\<open>+\<close>: for the
  entries \<^verbatim>\<open>a: "1 2"\<close> and \<^verbatim>\<open>b: "x"\<close> the result is \<^verbatim>\<open>&a=1+2&b=x\<close> or \<^verbatim>\<open>&b=x&a=1+2\<close>, and
  \<^verbatim>\<open>&a=1+2\<close> and \<^verbatim>\<open>&b=x\<close> occur in it exactly once each.
\<close>

theorem fmtOptions_concat:
  "fmtOptions c kvs = concat (map (\<lambda>(k, v). ''&'' @ k @ ''='' @ QueryEscape v) kvs)
   \<and> fmtOptions c [(''a'', ''1 2''), (''b'', ''x'')] = ''&a=1+2&b=x''
   \<and> fmtOptions c [(''b'', ''x''), (''a'', ''1 2'')] = ''&b=x&a=1+2''
   \<and> occurrences ''&a=1+2'' ''&a=1+2&b=x'' = 1 \<and> occurrences ''&b=x'' ''&a=1+2&b=x'' = 1
   \<and> occurrences ''&a=1+2'' ''&b=x&a=1+2'' = 1 \<and> occurrences ''&b=x'' ''&b=x&a=1+2'' = 1"
  by (simp add: fmtOptions_def foldl_append_concat case_prod_unfold shouldEscape_def
        is_alnum_def)

text \<open>
  For those two entries, in either order, the result does not contain \<^verbatim>\<open>&a=1%202\<close>.
\<close>

theorem fmtOptions_space_counterexample:
  "\<forall>c. fmtOptions c [(''a'', ''1 2''), (''b'', ''x'')] = ''&a=1+2&b=x''
       \<and> occurrences ''&a=1%202'' (fmtOptions c [(''a'', ''1 2''), (''b'', ''x'')]) = 0
       \<and> occurrences ''&a=1%202'' (fmtOptions c [(''b'', ''x''), (''a'', ''1 2'')]) = 0"
  by (simp add: fmtOptions_def shouldEscape_def is_alnum_def)

text \<open>
  Claim C9. The retry loops have no attempt cap. A call of an executor that reaches its
  loop returns exactly when some send has an outcome that does not make the loop go
  round again (a transport error, or a response whose status does not trigger a retry:
  with auto-retry enabled, any but 429 for \<open>get\<close> and any but 202 and 429 for \<open>request\<close>);
  when the first \<open>k\<close> outcomes trigger a retry and the next one does not, it returns after
  \<open>k + 1\<close> sends, for every \<open>k\<close>; and when every outcome triggers a retry it never returns.
\<close>

theorem retry_loop_unbounded:
  assumes "url \<noteq> []"
    and "NewRequestError E MethodGet url = None" and "NewRequestError E method url = None"
  shows "(autoRetry c \<longrightarrow>
            get_retries c x = (\<exists>res. x = Inr res \<and> resStatusCode res = 429)
            \<and> request_retries c x
                = (\<exists>res. x = Inr res \<and> (resStatusCode res = 202 \<or> resStatusCode res = 429)))
       \<and> (\<exists>r. get E c url d = Some r) = (\<exists>k. \<not> get_retries c (get_outcome E c url k))
       \<and> (\<exists>r. request E c url body method d = Some r)
           = (\<exists>k. \<not> request_retries c (request_outcome E c url body method k))
       \<and> ((\<forall>i<k. get_retries c (get_outcome E c url i))
            \<and> \<not> get_retries c (get_outcome E c url k)
          \<longrightarrow> (\<exists>c' tr d' e. get E c url d = Some (c', tr, d', e) \<and> sends tr = Suc k))
       \<and> ((\<forall>i<k. request_retries c (request_outcome E c url body method i))
            \<and> \<not> request_retries c (request_outcome E c url body method k)
          \<longrightarrow> (\<exists>c' tr d' e. request E c url body method d = Some (c', tr, d', e)
                \<and> sends tr = Suc k))
       \<and> ((\<forall>k. get_retries c (get_outcome E c url k)) \<longrightarrow> get E c url d = None)
       \<and> ((\<forall>k. request_retries c (request_outcome E c url body method k))
          \<longrightarrow> request E c url body method d = None)"
proof (intro conjI impI)
  assume "autoRetry c"
  then show "get_retries c x = (\<exists>res. x = Inr res \<and> resStatusCode res = 429)"
    by (cases x) (auto simp: get_retries_def StatusTooManyRequests_def)
next
  assume "autoRetry c"
  then show "request_retries c x
      = (\<exists>res. x = Inr res \<and> (resStatusCode res = 202 \<or> resStatusCode res = 429))"
    by (cases x)
       (auto simp: request_retries_def shouldRetry_def StatusTooManyRequests_def
          StatusAccepted_def)
next
  show "(\<exists>r. get E c url d = Some r) = (\<exists>k. \<not> get_retries c (get_outcome E c url k))"
    using assms(1,2) by (rule get_returns_iff)
next
  show "(\<exists>r. request E c url body method d = Some r)
      = (\<exists>k. \<not> request_retries c (request_outcome E c url body method k))"
    using assms(1,3) by (rule request_returns_iff)
next
  assume "(\<forall>i<k. get_retries c (get_outcome E c url i))
            \<and> \<not> get_retries c (get_outcome E c url k)"
  then show "\<exists>c' tr d' e. get E c url d = Some (c', tr, d', e) \<and> sends tr = Suc k"
    using get_returns_after [OF assms(1,2)] by blast
next
  assume "(\<forall>i<k. request_retries c (request_outcome E c url body method i))
            \<and> \<not> request_retries c (request_outcome E c url body method k)"
  then show "\<exists>c' tr d' e. request E c url body method d = Some (c', tr, d', e)
      \<and> sends tr = Suc k"
    using request_returns_after [OF assms(1,3)] by blast
next
  assume all: "\<forall>k. get_retries c (get_outcome E c url k)"
  show "get E c url d = None"
  proof (cases "get E c url d")
    case None
    then show ?thesis .
  next
    case (Some r)
    then have "\<exists>r. get E c url d = Some r" by blast
    then have "\<exists>k. \<not> get_retries c (get_outcome E c url k)"
      by (simp only: get_returns_iff [OF assms(1,2)])
    with all show ?thesis by blast
  qed
next
  assume all: "\<forall>k. request_retries c (request_outcome E c url body method k)"
  show "request E c url body method d = None"
  proof (cases "request E c url body method d")
    case None
    then show ?thesis .
  next
    case (Some r)
    then have "\<exists>r. request E c url body method d = Some r" by blast
    then have "\<exists>k. \<not> request_retries c (request_outcome E c url body method k)"
      by (simp only: request_returns_iff [OF assms(1,3)])
    with all show ?thesis by blast
  qed
qed

text \<open>
  Transports that answer 429, respectively 202, for ever, and transports that answer
  429 three times before a 200, respectively before a transport error.
\<close>

theorem retry_loop_unbounded_witness:
  "get (mock_env (\<lambda>n. Inr (throttled ''1''))) handle_retry ''u'' ''old'' = None
   \<and> request (mock_env (\<lambda>n. Inr (response_of 202 []))) handle_retry ''u'' ''b'' ''POST'' ''old''
       = None
   \<and> (\<exists>c' tr d' e.
        get (mock_env (\<lambda>n. if n < 3 then Inr (throttled ''1'') else Inr (response_of 200 ''new'')))
          handle_retry ''u'' ''old'' = Some (c', tr, d', e) \<and> sends tr = 4)
   \<and> (\<exists>c' tr d' e.
        request (mock_env (\<lambda>n. if n < 3 then Inr (throttled ''1'') else Inl ''timeout''))
          handle_retry ''u'' ''b'' ''POST'' ''old'' = Some (c', tr, d', e) \<and> sends tr = 4)"
  using
    retry_loop_unbounded [of "''u''" "mock_env (\<lambda>n. Inr (throttled ''1''))" "''POST''"
      handle_retry "Inl []" "''old''" "''b''" 0]
    retry_loop_unbounded [of "''u''" "mock_env (\<lambda>n. Inr (response_of 202 []))" "''POST''"
      handle_retry "Inl []" "''old''" "''b''" 0]
    retry_loop_unbounded [of "''u''"
      "mock_env (\<lambda>n. if n < 3 then Inr (throttled ''1'') else Inr (response_of 200 ''new''))"
      "''POST''" handle_retry "Inl []" "''old''" "''b''" 3]
    retry_loop_unbounded [of "''u''"
      "mock_env (\<lambda>n. if n < 3 then Inr (throttled ''1'') else Inl ''timeout'')"
      "''POST''" handle_retry "Inl []" "''old''" "''b''" 3]
  by (simp add: mock_env_simps get_outcome_def request_outcome_def get_retries_def
        request_retries_def handle_retry_flag throttled_status shouldRetry_def
        StatusTooManyRequests_def StatusAccepted_def StatusOK_def)

text \<open>
  Claim C1, as the code has it. With the auto-retry flag enabled, \<open>request\<close> sleeps for the
  retry duration and sends again on a response with status 202 or 429, and \<open>get\<close> does so
  on a response with status 429. With the flag disabled neither sends again: both return
  what \<open>decodeError\<close> yields for a 429 after that one send, \<open>get\<close> does the same for a 202,
  and \<open>request\<close> takes a 202 for a success and decodes its body into the target.
\<close>

theorem retry_by_executor:
  assumes "Do E n (http c) req = Inr res"
  shows "(autoRetry c \<and> resStatusCode res = 429 \<longrightarrow>
            get_loop E c req n tr d =
              get_loop E c req (Suc n)
                (tr @ [Send (http c) req, Sleep (retryDuration res)]) d)
       \<and> (autoRetry c \<and> (resStatusCode res = 202 \<or> resStatusCode res = 429) \<longrightarrow>
            request_loop E c req n tr d =
              request_loop E c req (Suc n)
                (tr @ [Send (http c) req, Sleep (retryDuration res)]) d)
       \<and> (\<not> autoRetry c \<and> resStatusCode res = 429 \<longrightarrow>
            get_loop E c req n tr d =
              Some (tr @ [Send (http c) req], d, Some (decodeError E c res))
            \<and> request_loop E c req n tr d =
              Some (tr @ [Send (http c) req], d, Some (decodeError E c res)))
       \<and> (\<not> autoRetry c \<and> resStatusCode res = 202 \<longrightarrow>
            get_loop E c req n tr d =
              Some (tr @ [Send (http c) req], d, Some (decodeError E c res))
            \<and> request_loop E c req n tr d =
              (case Decode E (Body res) d of
                 (d', Some err) \<Rightarrow>
                   Some (tr @ [Send (http c) req], d',
                     Some (ErrorString (''could not decode the data: '' @ err)))
               | (d', None) \<Rightarrow> Some (tr @ [Send (http c) req], d', None)))"
proof (intro conjI impI)
  assume "autoRetry c \<and> resStatusCode res = 429"
  then show "get_loop E c req n tr d =
      get_loop E c req (Suc n) (tr @ [Send (http c) req, Sleep (retryDuration res)]) d"
    using assms by (intro get_loop_retry) (simp_all add: StatusTooManyRequests_def)
next
  assume "autoRetry c \<and> (resStatusCode res = 202 \<or> resStatusCode res = 429)"
  then show "request_loop E c req n tr d =
      request_loop E c req (Suc n) (tr @ [Send (http c) req, Sleep (retryDuration res)]) d"
    using assms
    by (intro request_loop_retry)
       (auto simp: shouldRetry_def StatusTooManyRequests_def StatusAccepted_def)
next
  assume "\<not> autoRetry c \<and> resStatusCode res = 429"
  then show "get_loop E c req n tr d =
      Some (tr @ [Send (http c) req], d, Some (decodeError E c res))"
    using assms
    by (intro get_loop_error_status) (simp_all add: StatusNoContent_def StatusOK_def)
next
  assume "\<not> autoRetry c \<and> resStatusCode res = 429"
  then show "request_loop E c req n tr d =
      Some (tr @ [Send (http c) req], d, Some (decodeError E c res))"
    using assms
    by (intro request_loop_error_status) (simp_all add: StatusMultipleChoices_def)
next
  assume "\<not> autoRetry c \<and> resStatusCode res = 202"
  then show "get_loop E c req n tr d =
      Some (tr @ [Send (http c) req], d, Some (decodeError E c res))"
    using assms by (intro get_loop_accepted) (simp_all add: StatusAccepted_def)
next
  assume "\<not> autoRetry c \<and> resStatusCode res = 202"
  then show "request_loop E c req n tr d =
      (case Decode E (Body res) d of
         (d', Some err) \<Rightarrow>
           Some (tr @ [Send (http c) req], d',
             Some (ErrorString (''could not decode the data: '' @ err)))
       | (d', None) \<Rightarrow> Some (tr @ [Send (http c) req], d', None))"
    using assms
    by (intro request_loop_ok)
       (simp_all add: StatusOK_def StatusMultipleChoices_def StatusNoContent_def)
qed


text \<open>
  A 429 with \<^verbatim>\<open>Retry-After: 3\<close> and then a 200, a 202 and then a transport error, and single
  429 and 202 responses with the flag disabled.
\<close>

theorem retry_by_executor_witness:
  "get_loop (mock_env (\<lambda>n. if n = 0 then Inr (throttled ''3'') else Inr (response_of 200 ''new'')))
      handle_retry (built_request ''GET'' ''u'' []) 0 [] ''old''
     = Some ([Send (http handle_retry) (built_request ''GET'' ''u'' []), Sleep (3 * Second),
              Send (http handle_retry) (built_request ''GET'' ''u'' [])], ''new'', None)
   \<and> request_loop (mock_env (\<lambda>n. if n = 0 then Inr (response_of 202 []) else Inl ''reset''))
      handle_retry (built_request ''POST'' ''u'' ''b'') 0 [] ''old''
     = Some ([Send (http handle_retry) (built_request ''POST'' ''u'' ''b''), Sleep (5 * Second),
              Send (http handle_retry) (built_request ''POST'' ''u'' ''b'')], ''old'',
             Some (ErrorString ''reset''))
   \<and> get_loop (mock_env (\<lambda>n. Inr (throttled ''3''))) handle_plain
        (built_request ''GET'' ''u'' []) 0 [] ''old''
     = Some ([Send (http handle_plain) (built_request ''GET'' ''u'' [])], ''old'',
             Some (ErrorString ''[429]: empty body Too Many Requests''))
   \<and> request_loop (mock_env (\<lambda>n. Inr (throttled ''3''))) handle_plain
        (built_request ''POST'' ''u'' ''b'') 0 [] ''old''
     = Some ([Send (http handle_plain) (built_request ''POST'' ''u'' ''b'')], ''old'',
             Some (ErrorString ''[429]: empty body Too Many Requests''))
   \<and> get_loop (mock_env (\<lambda>n. Inr (response_of 202 []))) handle_plain
        (built_request ''GET'' ''u'' []) 0 [] ''old''
     = Some ([Send (http handle_plain) (built_request ''GET'' ''u'' [])], ''old'',
             Some (ErrorString ''[202]: empty body Accepted''))
   \<and> request_loop (mock_env (\<lambda>n. Inr (response_of 202 ''new''))) handle_plain
        (built_request ''POST'' ''u'' ''b'') 0 [] ''old''
     = Some ([Send (http handle_plain) (built_request ''POST'' ''u'' ''b'')], ''new'', None)"
  using
    retry_by_executor
      [of "mock_env (\<lambda>n. if n = 0 then Inr (throttled ''3'') else Inr (response_of 200 ''new''))"
        0 handle_retry "built_request ''GET'' ''u'' []" "throttled ''3''" "[]" "''old''"]
    retry_by_executor
      [of "mock_env (\<lambda>n. if n = 0 then Inr (response_of 202 []) else Inl ''reset'')"
        0 handle_retry "built_request ''POST'' ''u'' ''b''" "response_of 202 []" "[]" "''old''"]
    retry_by_executor
      [of "mock_env (\<lambda>n. Inr (throttled ''3''))"
        0 handle_plain "built_request ''GET'' ''u'' []" "throttled ''3''" "[]" "''old''"]
    retry_by_executor
      [of "mock_env (\<lambda>n. Inr (throttled ''3''))"
        0 handle_plain "built_request ''POST'' ''u'' ''b''" "throttled ''3''" "[]" "''old''"]
    retry_by_executor
      [of "mock_env (\<lambda>n. Inr (response_of 202 []))"
        0 handle_plain "built_request ''GET'' ''u'' []" "response_of 202 []" "[]" "''old''"]
    retry_by_executor
      [of "mock_env (\<lambda>n. Inr (response_of 202 ''new''))"
        0 handle_plain "built_request ''POST'' ''u'' ''b''" "response_of 202 ''new''" "[]"
        "''old''"]
  by (simp add: mock_env_simps mock_env_decoders handle_retry_flag throttled_status
        example_responses get_loop.simps request_loop.simps status_defs decodeError_def
        show_int_status)

text \<open>
  With the flag disabled, \<open>request\<close> returns no error for a 202 response; and with the flag
  enabled, \<open>get\<close> returns after one send of a 202 response, without a sleep.
\<close>

theorem retry_eligibility_counterexample:
  "request (mock_env (\<lambda>n. Inr (response_of 202 ''new''))) handle_plain ''u'' ''b'' ''POST'' ''old''
     = Some (applied_timeout handle_plain,
         [Send (http (applied_timeout handle_plain)) (built_request ''POST'' ''u'' ''b'')],
         ''new'', None)
   \<and> \<not> autoRetry handle_plain
   \<and> get (mock_env (\<lambda>n. Inr (response_of 202 []))) handle_retry ''u'' ''old''
     = Some (applied_timeout handle_retry,
         [Send (http (applied_timeout handle_retry)) (built_request ''GET'' ''u'' [])],
         ''old'', Some (ErrorString ''[202]: empty body Accepted''))
   \<and> autoRetry handle_retry \<and> shouldRetry 202"
  by (simp add: request_enters_loop get_enters_loop MethodGet_def mock_env_simps
        mock_env_decoders request_loop.simps get_loop.simps applied_timeout_flags
        handle_retry_flag throttled_status example_responses status_defs shouldRetry_def
        decodeError_def show_int_status)

text \<open>
  Claim C2, as the code has it. With auto-retry enabled, a 429 response followed by a
  200 response whose body decodes makes \<open>get\<close> send twice, with one sleep of the retry
  duration in between, and return no error with the second body decoded into the
  target. With auto-retry disabled, a 429 response makes \<open>get\<close> send once and return what
  \<open>decodeError\<close> yields for it: the API Error decoded from the body, with the status code
  the envelope carries, or for an empty body the generic error that names 429.
\<close>

theorem get_throttled_then_ok:
  assumes "url \<noteq> []" and "NewRequestError E MethodGet url = None"
  shows "(autoRetry c \<and> get_outcome E c url 0 = Inr r1 \<and> resStatusCode r1 = 429
            \<and> get_outcome E c url 1 = Inr r2 \<and> resStatusCode r2 = 200
            \<and> Decode E (Body r2) d = (d', None) \<longrightarrow>
          get E c url d =
            Some (applied_timeout c,
              [Send (http (applied_timeout c)) (built_request MethodGet url []),
               Sleep (retryDuration r1),
               Send (http (applied_timeout c)) (built_request MethodGet url [])],
              d', None))
       \<and> (\<not> autoRetry c \<and> get_outcome E c url 0 = Inr r \<and> resStatusCode r = 429 \<longrightarrow>
          get E c url d =
            Some (applied_timeout c,
              [Send (http (applied_timeout c)) (built_request MethodGet url [])],
              d, Some (decodeError E (applied_timeout c) r))
          \<and> (read_error (Body r) = None \<and> content (Body r) \<noteq> []
                \<and> DecodeEnvelope E (content (Body r)) = Some e \<longrightarrow>
              decodeError E (applied_timeout c) r = APIError e)
          \<and> (read_error (Body r) = None \<and> content (Body r) = [] \<longrightarrow>
              decodeError E (applied_timeout c) r =
                ErrorString (''[429]: empty body '' @ StatusText E 429)))"
proof (intro conjI impI)
  assume a: "autoRetry c \<and> get_outcome E c url 0 = Inr r1 \<and> resStatusCode r1 = 429
            \<and> get_outcome E c url 1 = Inr r2 \<and> resStatusCode r2 = 200
            \<and> Decode E (Body r2) d = (d', None)"
  let ?c = "applied_timeout c" and ?q = "built_request MethodGet url []"
  have 1: "Do E 0 (http ?c) ?q = Inr r1" and 2: "Do E (Suc 0) (http ?c) ?q = Inr r2"
    using a by (simp_all add: get_outcome_def)
  have "get_loop E ?c ?q 0 [] d
      = get_loop E ?c ?q (Suc 0) ([] @ [Send (http ?c) ?q, Sleep (retryDuration r1)]) d"
    using 1 a by (intro get_loop_retry) (simp_all add: status_defs applied_timeout_flags)
  also have "\<dots> = Some ([Send (http ?c) ?q, Sleep (retryDuration r1), Send (http ?c) ?q], d', None)"
    using a by (simp add: get_loop_ok [OF 2] status_defs)
  finally show "get E c url d =
      Some (?c, [Send (http ?c) ?q, Sleep (retryDuration r1), Send (http ?c) ?q], d', None)"
    by (simp add: get_enters_loop [OF assms])
next
  assume a: "\<not> autoRetry c \<and> get_outcome E c url 0 = Inr r \<and> resStatusCode r = 429"
  let ?c = "applied_timeout c" and ?q = "built_request MethodGet url []"
  have "get_loop E ?c ?q 0 [] d = Some ([] @ [Send (http ?c) ?q], d, Some (decodeError E ?c r))"
    using a
    by (intro get_loop_error_status)
       (simp_all add: get_outcome_def status_defs applied_timeout_flags)
  then show "get E c url d = Some (?c, [Send (http ?c) ?q], d, Some (decodeError E ?c r))"
    by (simp add: get_enters_loop [OF assms])
next
  assume "\<not> autoRetry c \<and> get_outcome E c url 0 = Inr r \<and> resStatusCode r = 429"
    and "read_error (Body r) = None \<and> content (Body r) \<noteq> []
                \<and> DecodeEnvelope E (content (Body r)) = Some e"
  then show "decodeError E (applied_timeout c) r = APIError e"
    by (simp add: decodeError_def)
next
  assume "\<not> autoRetry c \<and> get_outcome E c url 0 = Inr r \<and> resStatusCode r = 429"
    and "read_error (Body r) = None \<and> content (Body r) = []"
  then show "decodeError E (applied_timeout c) r =
                ErrorString (''[429]: empty body '' @ StatusText E 429)"
    by (simp add: decodeError_def show_int_status)
qed

text \<open>
  A 429 with \<^verbatim>\<open>Retry-After: 3\<close> and then a 200 with auto-retry enabled; with it disabled, a
  429 whose body is an envelope with \<^verbatim>\<open>status_code\<close> 25, and a 429 with no body.
\<close>

theorem get_throttled_then_ok_witness:
  "get (mock_env (\<lambda>n. if n = 0 then Inr (throttled ''3'') else Inr (response_of 200 ''new'')))
      handle_retry ''u'' ''old''
     = Some (applied_timeout handle_retry,
         [Send (http (applied_timeout handle_retry)) (built_request ''GET'' ''u'' []),
          Sleep (3 * Second),
          Send (http (applied_timeout handle_retry)) (built_request ''GET'' ''u'' [])],
         ''new'', None)
   \<and> get (mock_env (\<lambda>n. Inr (response_of 429 body_limit))) handle_plain ''u'' ''old''
     = Some (applied_timeout handle_plain,
         [Send (http (applied_timeout handle_plain)) (built_request ''GET'' ''u'' [])],
         ''old'',
         Some (APIError \<lparr>StatusMessage = ''over limit'', Success = False, StatusCode = 25\<rparr>))
   \<and> get (mock_env (\<lambda>n. Inr (throttled ''3''))) handle_plain ''u'' ''old''
     = Some (applied_timeout handle_plain,
         [Send (http (applied_timeout handle_plain)) (built_request ''GET'' ''u'' [])],
         ''old'', Some (ErrorString ''[429]: empty body Too Many Requests''))"
  using
    get_throttled_then_ok
      [of "''u''"
        "mock_env (\<lambda>n. if n = 0 then Inr (throttled ''3'') else Inr (response_of 200 ''new''))"
        handle_retry "throttled ''3''" "response_of 200 ''new''" "''old''" "''new''"]
    get_throttled_then_ok
      [of "''u''" "mock_env (\<lambda>n. Inr (response_of 429 body_limit))"
        handle_plain _ _ "''old''" _ "response_of 429 body_limit"
        "\<lparr>StatusMessage = ''over limit'', Success = False, StatusCode = 25\<rparr>"]
    get_throttled_then_ok
      [of "''u''" "mock_env (\<lambda>n. Inr (throttled ''3''))"
        handle_plain _ _ "''old''" _ "throttled ''3''"]
  by (simp add: mock_env_simps mock_env_decoders get_outcome_def handle_retry_flag
        throttled_status example_responses MethodGet_def body_limit_def body_fail_def)

text \<open>
  With auto-retry disabled, a 429 response whose body is the envelope
  \<^verbatim>\<open>{"status_code":25,"status_message":"over limit"}\<close> gives an API Error with status
  code 25, not 429.
\<close>

theorem get_throttled_code_counterexample:
  "get (mock_env (\<lambda>n. Inr (response_of 429 body_limit))) handle_plain ''u'' ''old''
     = Some (applied_timeout handle_plain,
         [Send (http (applied_timeout handle_plain)) (built_request ''GET'' ''u'' [])],
         ''old'',
         Some (APIError \<lparr>StatusMessage = ''over limit'', Success = False, StatusCode = 25\<rparr>))
   \<and> \<not> autoRetry handle_plain"
  by (simp add: get_enters_loop MethodGet_def mock_env_simps mock_env_decoders
        get_loop.simps applied_timeout_flags handle_retry_flag throttled_status
        example_responses status_defs decodeError_def body_limit_def body_fail_def)

text \<open>
  Claim C5, as the code has it. A 204 response makes \<open>get\<close> return no error without
  decoding: the target is as it was. \<open>request\<close> hands a 204 response, like every response
  with a status of at least 300 or below 200 that it does not send again (with
  auto-retry enabled a 429 is sent again), to \<open>decodeError\<close> and returns the error that
  yields, with the target as it was: for an empty body, as a 204 has, the generic error
  with the status code and its text; for a body that decodes as the envelope, the API
  Error; for any other body, the error with the number of bytes and the bytes; and the
  text of the read error when the body cannot be read. Stated for the loops at any send,
  and for a whole call whose first response is a 204.
\<close>

theorem no_content_by_executor:
  assumes "Do E n (http c) req = Inr res"
  shows "(resStatusCode res = 204 \<longrightarrow>
            get_loop E c req n tr d = Some (tr @ [Send (http c) req], d, None))
       \<and> (autoRetry c \<and> resStatusCode res = 429 \<longrightarrow>
            request_loop E c req n tr d =
              request_loop E c req (Suc n)
                (tr @ [Send (http c) req, Sleep (retryDuration res)]) d)
       \<and> ((resStatusCode res = 204 \<or> 300 \<le> resStatusCode res \<or> resStatusCode res < 200)
            \<and> \<not> (autoRetry c \<and> resStatusCode res = 429) \<longrightarrow>
            (read_error (Body res) = None \<and> content (Body res) = [] \<longrightarrow>
               request_loop E c req n tr d =
                 Some (tr @ [Send (http c) req], d,
                   Some (ErrorString (''['' @ show_int (resStatusCode res) @ '']: empty body ''
                     @ StatusText E (resStatusCode res)))))
            \<and> (read_error (Body res) = None \<and> content (Body res) \<noteq> []
                  \<and> DecodeEnvelope E (content (Body res)) = Some e \<longrightarrow>
               request_loop E c req n tr d =
                 Some (tr @ [Send (http c) req], d, Some (APIError e)))
            \<and> (read_error (Body res) = None \<and> content (Body res) \<noteq> []
                  \<and> DecodeEnvelope E (content (Body res)) = None \<longrightarrow>
               request_loop E c req n tr d =
                 Some (tr @ [Send (http c) req], d,
                   Some (ErrorString (''couldn't decode error: (''
                     @ show_int (int (length (content (Body res)))) @ '') [''
                     @ content (Body res) @ '']''))))
            \<and> (read_error (Body res) = Some err \<longrightarrow>
               request_loop E c req n tr d =
                 Some (tr @ [Send (http c) req], d,
                   Some (ErrorString (''could not read body response: '' @ err)))))
       \<and> (url \<noteq> [] \<and> NewRequestError E MethodGet url = None
            \<and> get_outcome E c' url 0 = Inr res' \<and> resStatusCode res' = 204 \<longrightarrow>
            get E c' url d =
              Some (applied_timeout c',
                [Send (http (applied_timeout c')) (built_request MethodGet url [])], d, None))
       \<and> (url \<noteq> [] \<and> NewRequestError E method url = None
            \<and> request_outcome E c' url body method 0 = Inr res' \<and> resStatusCode res' = 204
            \<and> read_error (Body res') = None \<and> content (Body res') = [] \<longrightarrow>
            request E c' url body method d =
              Some (applied_timeout c',
                [Send (http (applied_timeout c')) (built_request method url (Encode E body))],
                d, Some (ErrorString (''[204]: empty body '' @ StatusText E 204))))"
proof -
  have surfaced: "request_loop E c req n tr d =
      Some (tr @ [Send (http c) req], d, Some (decodeError E c res))"
    if "(resStatusCode res = 204 \<or> 300 \<le> resStatusCode res \<or> resStatusCode res < 200)
         \<and> \<not> (autoRetry c \<and> resStatusCode res = 429)"
    using assms that
    by (intro request_loop_error_status) (auto simp: status_defs shouldRetry_def)
  show ?thesis
  proof (intro conjI impI)
    assume "resStatusCode res = 204"
    then show "get_loop E c req n tr d = Some (tr @ [Send (http c) req], d, None)"
      using assms by (intro get_loop_no_content) (simp_all add: status_defs)
  next
    assume "autoRetry c \<and> resStatusCode res = 429"
    then show "request_loop E c req n tr d =
        request_loop E c req (Suc n) (tr @ [Send (http c) req, Sleep (retryDuration res)]) d"
      using assms
      by (intro request_loop_retry) (simp_all add: shouldRetry_def status_defs)
  next
    assume a: "(resStatusCode res = 204 \<or> 300 \<le> resStatusCode res \<or> resStatusCode res < 200)
         \<and> \<not> (autoRetry c \<and> resStatusCode res = 429)"
      and b: "read_error (Body res) = None \<and> content (Body res) = []"
    show "request_loop E c req n tr d =
        Some (tr @ [Send (http c) req], d,
          Some (ErrorString (''['' @ show_int (resStatusCode res) @ '']: empty body ''
            @ StatusText E (resStatusCode res))))"
      using b by (simp add: surfaced [OF a] decodeError_def)
  next
    assume a: "(resStatusCode res = 204 \<or> 300 \<le> resStatusCode res \<or> resStatusCode res < 200)
         \<and> \<not> (autoRetry c \<and> resStatusCode res = 429)"
      and b: "read_error (Body res) = None \<and> content (Body res) \<noteq> []
                  \<and> DecodeEnvelope E (content (Body res)) = Some e"
    show "request_loop E c req n tr d =
        Some (tr @ [Send (http c) req], d, Some (APIError e))"
      using b by (simp add: surfaced [OF a] decodeError_def)
  next
    assume a: "(resStatusCode res = 204 \<or> 300 \<le> resStatusCode res \<or> resStatusCode res < 200)
         \<and> \<not> (autoRetry c \<and> resStatusCode res = 429)"
      and b: "read_error (Body res) = None \<and> content (Body res) \<noteq> []
                  \<and> DecodeEnvelope E (content (Body res)) = None"
    show "request_loop E c req n tr d =
        Some (tr @ [Send (http c) req], d,
          Some (ErrorString (''couldn't decode error: (''
            @ show_int (int (length (content (Body res)))) @ '') [''
            @ content (Body res) @ '']'')))"
      using b by (simp add: surfaced [OF a] decodeError_def Let_def)
  next
    assume a: "(resStatusCode res = 204 \<or> 300 \<le> resStatusCode res \<or> resStatusCode res < 200)
         \<and> \<not> (autoRetry c \<and> resStatusCode res = 429)"
      and b: "read_error (Body res) = Some err"
    show "request_loop E c req n tr d =
        Some (tr @ [Send (http c) req], d,
          Some (ErrorString (''could not read body response: '' @ err)))"
      using b by (simp add: surfaced [OF a] decodeError_def)
  next
    assume a: "url \<noteq> [] \<and> NewRequestError E MethodGet url = None
            \<and> get_outcome E c' url 0 = Inr res' \<and> resStatusCode res' = 204"
    let ?c = "applied_timeout c'" and ?q = "built_request MethodGet url []"
    have 1: "Do E 0 (http ?c) ?q = Inr res'" using a by (simp add: get_outcome_def)
    have "get_loop E ?c ?q 0 [] d = Some ([] @ [Send (http ?c) ?q], d, None)"
      using a by (intro get_loop_no_content [OF 1]) (simp add: status_defs)
    with a show "get E c' url d = Some (?c, [Send (http ?c) ?q], d, None)"
      by (simp add: get_enters_loop)
  next
    assume a: "url \<noteq> [] \<and> NewRequestError E method url = None
        \<and> request_outcome E c' url body method 0 = Inr res' \<and> resStatusCode res' = 204
        \<and> read_error (Body res') = None \<and> content (Body res') = []"
    let ?c = "applied_timeout c'" and ?q = "built_request method url (Encode E body)"
    have 1: "Do E 0 (http ?c) ?q = Inr res'" using a by (simp add: request_outcome_def)
    have "request_loop E ?c ?q 0 [] d
        = Some ([] @ [Send (http ?c) ?q], d, Some (decodeError E ?c res'))"
      using a
      by (intro request_loop_error_status [OF 1]) (simp_all add: status_defs shouldRetry_def)
    with a show "request E c' url body method d =
        Some (?c, [Send (http ?c) ?q], d,
          Some (ErrorString (''[204]: empty body '' @ StatusText E 204)))"
      by (simp add: request_enters_loop decodeError_def show_int_status)
  qed
qed

text \<open>
  For \<open>get\<close> a 204; for \<open>request\<close> a 204 with no body, a 500 with the envelope, a 404 with
  the body \<^verbatim>\<open><html>\<close>, a 502 whose body cannot be read, and a 429 followed by a 404 with
  auto-retry enabled.
\<close>

theorem no_content_by_executor_witness:
  "get (mock_env (\<lambda>n. Inr (response_of 204 []))) handle_retry ''u'' ''old''
     = Some (applied_timeout handle_retry,
         [Send (http (applied_timeout handle_retry)) (built_request ''GET'' ''u'' [])],
         ''old'', None)
   \<and> request (mock_env (\<lambda>n. Inr (response_of 204 []))) handle_retry ''u'' ''b'' ''DELETE'' ''old''
     = Some (applied_timeout handle_retry,
         [Send (http (applied_timeout handle_retry)) (built_request ''DELETE'' ''u'' ''b'')],
         ''old'', Some (ErrorString ''[204]: empty body No Content''))
   \<and> request_loop (mock_env (\<lambda>n. Inr (response_of 500 body_fail))) handle_retry
        (built_request ''DELETE'' ''u'' ''b'') 0 [] ''old''
     = Some ([Send (http handle_retry) (built_request ''DELETE'' ''u'' ''b'')], ''old'',
         Some (APIError \<lparr>StatusMessage = ''fail'', Success = False, StatusCode = 500\<rparr>))
   \<and> request_loop (mock_env (\<lambda>n. Inr (response_of 404 ''<html>''))) handle_retry
        (built_request ''DELETE'' ''u'' ''b'') 0 [] ''old''
     = Some ([Send (http handle_retry) (built_request ''DELETE'' ''u'' ''b'')], ''old'',
         Some (ErrorString ''couldn't decode error: (6) [<html>]''))
   \<and> request_loop
        (mock_env (\<lambda>n. Inr \<lparr>resStatusCode = 502, Header = Map.empty,
                              Body = \<lparr>content = [], read_error = Some ''reset''\<rparr>\<rparr>))
        handle_retry (built_request ''DELETE'' ''u'' ''b'') 0 [] ''old''
     = Some ([Send (http handle_retry) (built_request ''DELETE'' ''u'' ''b'')], ''old'',
         Some (ErrorString ''could not read body response: reset''))
   \<and> request_loop
        (mock_env (\<lambda>n. if n = 0 then Inr (throttled ''3'') else Inr (response_of 404 [])))
        handle_retry (built_request ''DELETE'' ''u'' ''b'') 0 [] ''old''
     = Some ([Send (http handle_retry) (built_request ''DELETE'' ''u'' ''b''), Sleep (3 * Second),
              Send (http handle_retry) (built_request ''DELETE'' ''u'' ''b'')], ''old'',
         Some (ErrorString ''[404]: empty body Not Found''))"
  using
    no_content_by_executor
      [of "mock_env (\<lambda>n. Inr (response_of 204 []))" 0 handle_retry
        "built_request ''DELETE'' ''u'' ''b''" "response_of 204 []" "[]" "''old''" _ _
        "''u''" handle_retry "response_of 204 []" "''DELETE''" "''b''"]
    no_content_by_executor
      [of "mock_env (\<lambda>n. Inr (response_of 500 body_fail))" 0 handle_retry
        "built_request ''DELETE'' ''u'' ''b''" "response_of 500 body_fail" "[]" "''old''"
        "\<lparr>StatusMessage = ''fail'', Success = False, StatusCode = 500\<rparr>" _
        "[]" handle_retry "response_of 204 []" "''DELETE''" "''b''"]
    no_content_by_executor
      [of "mock_env (\<lambda>n. Inr (response_of 404 ''<html>''))" 0 handle_retry
        "built_request ''DELETE'' ''u'' ''b''" "response_of 404 ''<html>''" "[]" "''old''" _ _
        "[]" handle_retry "response_of 204 []" "''DELETE''" "''b''"]
    no_content_by_executor
      [of "mock_env (\<lambda>n. Inr \<lparr>resStatusCode = 502, Header = Map.empty,
                              Body = \<lparr>content = [], read_error = Some ''reset''\<rparr>\<rparr>)"
        0 handle_retry "built_request ''DELETE'' ''u'' ''b''"
        "\<lparr>resStatusCode = 502, Header = Map.empty,
          Body = \<lparr>content = [], read_error = Some ''reset''\<rparr>\<rparr>" "[]" "''old''" _ "''reset''"
        "[]" handle_retry "response_of 204 []" "''DELETE''" "''b''"]
    no_content_by_executor
      [of "mock_env (\<lambda>n. if n = 0 then Inr (throttled ''3'') else Inr (response_of 404 []))"
        0 handle_retry "built_request ''DELETE'' ''u'' ''b''" "throttled ''3''" "[]" "''old''" _ _
        "[]" handle_retry "response_of 204 []" "''DELETE''" "''b''"]
    no_content_by_executor
      [of "mock_env (\<lambda>n. if n = 0 then Inr (throttled ''3'') else Inr (response_of 404 []))"
        "Suc 0" handle_retry "built_request ''DELETE'' ''u'' ''b''" "response_of 404 []"
        "[Send (http handle_retry) (built_request ''DELETE'' ''u'' ''b''), Sleep (3 * Second)]"
        "''old''" _ _
        "[]" handle_retry "response_of 204 []" "''DELETE''" "''b''"]
  by (simp add: mock_env_simps mock_env_decoders get_outcome_def request_outcome_def
        handle_retry_flag throttled_status example_responses MethodGet_def show_int_status
        body_fail_def body_limit_def show_int_def show_nat.simps digit_char_def)

text \<open>
  \<open>request\<close> returns for a 204 response with no body the generic error, which is no API
  Error; and with auto-retry enabled it does not return a failure for a 429 response, a
  status of at least 300: it sleeps and sends again, and the error it returns is that of
  the 404 that follows.
\<close>

theorem no_content_not_api_error_counterexample:
  "request (mock_env (\<lambda>n. Inr (response_of 204 []))) handle_plain ''u'' ''b'' ''DELETE'' ''old''
     = Some (applied_timeout handle_plain,
         [Send (http (applied_timeout handle_plain)) (built_request ''DELETE'' ''u'' ''b'')],
         ''old'', Some (ErrorString ''[204]: empty body No Content''))
   \<and> (\<forall>e. ErrorString ''[204]: empty body No Content'' \<noteq> APIError e)
   \<and> request
        (mock_env (\<lambda>n. if n = 0 then Inr (throttled ''3'') else Inr (response_of 404 [])))
        handle_retry ''u'' ''b'' ''DELETE'' ''old''
     = Some (applied_timeout handle_retry,
         [Send (http (applied_timeout handle_retry)) (built_request ''DELETE'' ''u'' ''b''),
          Sleep (3 * Second),
          Send (http (applied_timeout handle_retry)) (built_request ''DELETE'' ''u'' ''b'')],
         ''old'', Some (ErrorString ''[404]: empty body Not Found''))
   \<and> autoRetry handle_retry"
  by (simp add: request_enters_loop mock_env_simps mock_env_decoders request_loop.simps
        applied_timeout_flags handle_retry_flag throttled_status example_responses
        status_defs shouldRetry_def decodeError_def show_int_status)

text \<open>
  Claim C6. For a response whose body is read without error, \<open>decodeError\<close> returns: for
  an empty body, a generic error with the status code and \<^verbatim>\<open>http.StatusText\<close> of it; for a
  body that is not empty and does not decode as the envelope, an error with the number
  of bytes and the bytes; for a body that decodes as the envelope, that API Error, whose
  text is \<^verbatim>\<open>code: <code> | success: <bool> | message: <text>\<close>. For the body
  \<^verbatim>\<open>{"status_message":"fail","success":false,"status_code":500}\<close> on a 500 response, which
  \<^verbatim>\<open>encoding/json\<close> decodes to message \<^verbatim>\<open>fail\<close>, success false, code 500, the text is
  \<^verbatim>\<open>code: 500 | success: false | message: fail\<close>.
\<close>

theorem decodeError_cases:
  assumes "read_error (Body r) = None"
  shows "(content (Body r) = [] \<longrightarrow>
            decodeError E c r =
              ErrorString (''['' @ show_int (resStatusCode r) @ '']: empty body ''
                @ StatusText E (resStatusCode r)))
       \<and> (content (Body r) \<noteq> [] \<and> DecodeEnvelope E (content (Body r)) = None \<longrightarrow>
            decodeError E c r =
              ErrorString (''couldn't decode error: (''
                @ show_int (int (length (content (Body r)))) @ '') [''
                @ content (Body r) @ '']''))
       \<and> (content (Body r) \<noteq> [] \<and> DecodeEnvelope E (content (Body r)) = Some e \<longrightarrow>
            decodeError E c r = APIError e
            \<and> error_text (decodeError E c r) =
                ''code: '' @ show_int (StatusCode e) @ '' | success: ''
                  @ (if Success e then ''true'' else ''false'') @ '' | message: ''
                  @ StatusMessage e)
       \<and> (content (Body r) = body_fail \<and> resStatusCode r = 500
            \<and> DecodeEnvelope E body_fail
                = Some \<lparr>StatusMessage = ''fail'', Success = False, StatusCode = 500\<rparr> \<longrightarrow>
            decodeError E c r
              = APIError \<lparr>StatusMessage = ''fail'', Success = False, StatusCode = 500\<rparr>
            \<and> error_text (decodeError E c r) = ''code: 500 | success: false | message: fail'')"
  using assms
  by (simp add: decodeError_def Let_def Error_Error_def show_bool_def show_int_status body_fail_def)

text \<open>
  A 404 with no body, a 500 with the body \<^verbatim>\<open><html>\<close>, and the 500 with the envelope.
\<close>

theorem decodeError_cases_witness:
  "decodeError (mock_env (\<lambda>n. Inl [])) handle_plain (response_of 404 [])
     = ErrorString ''[404]: empty body Not Found''
   \<and> decodeError (mock_env (\<lambda>n. Inl [])) handle_plain (response_of 500 ''<html>'')
     = ErrorString (''couldn't decode error: (6) [<html>]'')
   \<and> decodeError (mock_env (\<lambda>n. Inl [])) handle_plain (response_of 500 body_fail)
     = APIError \<lparr>StatusMessage = ''fail'', Success = False, StatusCode = 500\<rparr>
   \<and> error_text (decodeError (mock_env (\<lambda>n. Inl [])) handle_plain (response_of 500 body_fail))
     = ''code: 500 | success: false | message: fail''"
  using
    decodeError_cases [of "response_of 404 []" "mock_env (\<lambda>n. Inl [])" handle_plain]
    decodeError_cases [of "response_of 500 ''<html>''" "mock_env (\<lambda>n. Inl [])" handle_plain]
    decodeError_cases [of "response_of 500 body_fail" "mock_env (\<lambda>n. Inl [])" handle_plain
      "\<lparr>StatusMessage = ''fail'', Success = False, StatusCode = 500\<rparr>"]
  by (simp add: example_responses throttled_status mock_env_decoders show_int_status Let_def Error_Error_def show_bool_def
        body_fail_def body_limit_def show_int_def show_nat.simps digit_char_def)

text \<open>
  Claim C7. An empty API key, an empty session id and an empty URL fail at once with a
  usage error: \<open>Init\<close> returns no handle, \<open>SetSessionID\<close> and the two executors return the
  handle as it was, and the executors send nothing and leave the target alone. A session
  id that is not empty replaces the stored one, and no executor call and no other
  setter changes the stored session id afterwards.
\<close>

theorem empty_inputs_fail:
  "Init [] = Inl (ErrorString ''APIKey is empty'')
   \<and> SetSessionID c [] = (c, Some (ErrorString ''The SessionID is empty''))
   \<and> get E c [] d = Some (c, [], d, Some (ErrorString ''url field is empty''))
   \<and> request E c [] body method d = Some (c, [], d, Some (ErrorString ''url field is empty''))
   \<and> (sid \<noteq> [] \<longrightarrow> SetSessionID c sid = (c\<lparr>sessionID := sid\<rparr>, None))
   \<and> (get E c url d = Some (c', tr, d', e) \<longrightarrow> sessionID c' = sessionID c)
   \<and> (request E c url body method d = Some (c', tr, d', e) \<longrightarrow> sessionID c' = sessionID c)
   \<and> sessionID (SetClientConfig c h) = sessionID c
   \<and> sessionID (SetClientAutoRetry c) = sessionID c
   \<and> sessionID (SetClientWithContext c) = sessionID c"
proof (intro conjI impI)
  assume a: "get E c url d = Some (c', tr, d', e)"
  show "sessionID c' = sessionID c"
    using get_handle [OF a] by (simp add: applied_timeout_flags)
next
  assume a: "request E c url body method d = Some (c', tr, d', e)"
  show "sessionID c' = sessionID c"
    using request_handle [OF a] by (simp add: applied_timeout_flags)
qed (simp_all add: Init_def SetSessionID_def get_empty_url request_empty_url
       SetClientConfig_def SetClientAutoRetry_def SetClientWithContext_def)

text \<open>
  The session id \<^verbatim>\<open>abc\<close> set on a fresh handle, an empty id after it, and executor calls
  with a URL and with the empty URL.
\<close>

theorem empty_inputs_fail_witness:
  "SetSessionID handle_plain ''abc'' = (handle_plain\<lparr>sessionID := ''abc''\<rparr>, None)
   \<and> SetSessionID (handle_plain\<lparr>sessionID := ''abc''\<rparr>) []
       = (handle_plain\<lparr>sessionID := ''abc''\<rparr>, Some (ErrorString ''The SessionID is empty''))
   \<and> get (mock_env (\<lambda>n. Inr (response_of 200 ''new''))) (handle_plain\<lparr>sessionID := ''abc''\<rparr>)
        ''u'' ''old''
       = Some (applied_timeout (handle_plain\<lparr>sessionID := ''abc''\<rparr>),
           [Send (http (applied_timeout (handle_plain\<lparr>sessionID := ''abc''\<rparr>)))
              (built_request ''GET'' ''u'' [])], ''new'', None)
   \<and> sessionID (applied_timeout (handle_plain\<lparr>sessionID := ''abc''\<rparr>)) = ''abc''
   \<and> get (mock_env (\<lambda>n. Inr (response_of 200 ''new''))) handle_plain [] ''old''
       = Some (handle_plain, [], ''old'', Some (ErrorString ''url field is empty''))"
proof -
  let ?E = "mock_env (\<lambda>n. Inr (response_of 200 ''new''))"
  let ?c = "handle_plain\<lparr>sessionID := ''abc''\<rparr>"
  let ?tr = "[Send (http (applied_timeout ?c)) (built_request ''GET'' ''u'' [])]"
  have run: "get ?E ?c ''u'' ''old'' = Some (applied_timeout ?c, ?tr, ''new'', None)"
    by (simp add: get_enters_loop MethodGet_def mock_env_simps mock_env_decoders
          get_loop.simps throttled_status example_responses status_defs)
  show ?thesis
    using run
      empty_inputs_fail [of handle_plain ?E "''old''" "''b''" "''POST''" "''abc''" "''u''"
        "applied_timeout ?c" ?tr "''new''" None "\<lparr>Timeout = 0\<rparr>"]
      empty_inputs_fail [of ?c ?E "''old''" "''b''" "''POST''" "''abc''" "''u''"
        "applied_timeout ?c" ?tr "''new''" None "\<lparr>Timeout = 0\<rparr>"]
    by simp
qed

text \<open>
  Claim C10, as the code has it. A call of either executor with a URL that is not empty
  on a handle whose timeout is zero sets the timeout to 10 seconds before it sends: the
  handle it leaves is the old one with that timeout, and every send of the call goes
  through the client with that timeout. The timeout stays: a handle left by such a call
  has a timeout that is not zero, and a later call of either executor leaves it as it
  is. A call with the empty URL returns before the timeout is looked at and leaves the
  handle as it is. On every path the handle an executor leaves differs from the old one
  in the timeout at most: API key, session id, auto-retry flag and context flag are
  never written.
\<close>

theorem timeout_default_applied:
  "(get E c url d = Some (c', tr, d', e) \<longrightarrow>
      c' = (if url \<noteq> [] \<and> Timeout (http c) = 0
            then c\<lparr>http := (http c)\<lparr>Timeout := Second * 10\<rparr>\<rparr> else c)
      \<and> list_all (\<lambda>ev. ev = Send (http c') (built_request MethodGet url []) \<or> \<not> is_Send ev) tr
      \<and> (url \<noteq> [] \<longrightarrow> Timeout (http c') \<noteq> 0))
   \<and> (request E c url body method d = Some (c', tr, d', e) \<longrightarrow>
      c' = (if url \<noteq> [] \<and> Timeout (http c) = 0
            then c\<lparr>http := (http c)\<lparr>Timeout := Second * 10\<rparr>\<rparr> else c)
      \<and> list_all (\<lambda>ev. ev = Send (http c') (built_request method url (Encode E body))
                        \<or> \<not> is_Send ev) tr
      \<and> (url \<noteq> [] \<longrightarrow> Timeout (http c') \<noteq> 0))
   \<and> (url \<noteq> []
        \<and> (get E c url d = Some (c', tr, d', e)
             \<or> request E c url body method d = Some (c', tr, d', e))
        \<and> (get E2 c' url2 d2 = Some (c'', tr2, d2', e2)
             \<or> request E2 c' url2 body2 method2 d2 = Some (c'', tr2, d2', e2)) \<longrightarrow>
      c'' = c')"
proof (intro conjI impI)
  assume a: "url \<noteq> []
        \<and> (get E c url d = Some (c', tr, d', e)
             \<or> request E c url body method d = Some (c', tr, d', e))
        \<and> (get E2 c' url2 d2 = Some (c'', tr2, d2', e2)
             \<or> request E2 c' url2 body2 method2 d2 = Some (c'', tr2, d2', e2))"
  then have "c' = applied_timeout c"
    using get_handle [of E c url d c' tr d' e]
      request_handle [of E c url body "method" d c' tr d' e] by auto
  then have "Timeout (http c') \<noteq> 0" by (simp add: applied_timeout_zero)
  then have "applied_timeout c' = c'" by (simp add: applied_timeout_zero)
  moreover have "c'' = (if url2 = [] then c' else applied_timeout c')"
    using a get_handle [of E2 c' url2 d2 c'' tr2 d2' e2]
      request_handle [of E2 c' url2 body2 method2 d2 c'' tr2 d2' e2] by blast
  ultimately show "c'' = c'" by simp
next
  assume a: "get E c url d = Some (c', tr, d', e)"
  show "c' = (if url \<noteq> [] \<and> Timeout (http c) = 0
            then c\<lparr>http := (http c)\<lparr>Timeout := Second * 10\<rparr>\<rparr> else c)"
    using get_handle [OF a] by (simp add: applied_timeout_def)
  show "list_all (\<lambda>ev. ev = Send (http c') (built_request MethodGet url []) \<or> \<not> is_Send ev) tr"
    using a by (rule get_events)
  show "Timeout (http c') \<noteq> 0" if "url \<noteq> []"
    using get_handle [OF a] that by (simp add: applied_timeout_zero)
next
  assume a: "request E c url body method d = Some (c', tr, d', e)"
  show "c' = (if url \<noteq> [] \<and> Timeout (http c) = 0
            then c\<lparr>http := (http c)\<lparr>Timeout := Second * 10\<rparr>\<rparr> else c)"
    using request_handle [OF a] by (simp add: applied_timeout_def)
  show "list_all (\<lambda>ev. ev = Send (http c') (built_request method url (Encode E body))
                        \<or> \<not> is_Send ev) tr"
    using a by (rule request_events)
  show "Timeout (http c') \<noteq> 0" if "url \<noteq> []"
    using request_handle [OF a] that by (simp add: applied_timeout_zero)
qed

text \<open>
  A fresh handle: a \<open>get\<close> that is answered 200, then a \<open>request\<close> on the handle it leaves
  that meets a transport error, and the same \<open>request\<close> on the fresh handle.
\<close>

theorem timeout_default_applied_witness:
  "get (mock_env (\<lambda>n. Inr (response_of 200 ''new''))) handle_plain ''u'' ''old''
     = Some (handle_plain\<lparr>http := \<lparr>Timeout = 10 * Second\<rparr>\<rparr>,
         [Send \<lparr>Timeout = 10 * Second\<rparr> (built_request ''GET'' ''u'' [])], ''new'', None)
   \<and> request (mock_env (\<lambda>n. Inl ''refused'')) (handle_plain\<lparr>http := \<lparr>Timeout = 10 * Second\<rparr>\<rparr>)
       ''v'' ''b'' ''POST'' ''old''
     = Some (handle_plain\<lparr>http := \<lparr>Timeout = 10 * Second\<rparr>\<rparr>,
         [Send \<lparr>Timeout = 10 * Second\<rparr> (built_request ''POST'' ''v'' ''b'')], ''old'',
         Some (ErrorString ''refused''))
   \<and> request (mock_env (\<lambda>n. Inl ''refused'')) handle_plain ''v'' ''b'' ''POST'' ''old''
     = Some (handle_plain\<lparr>http := \<lparr>Timeout = 10 * Second\<rparr>\<rparr>,
         [Send \<lparr>Timeout = 10 * Second\<rparr> (built_request ''POST'' ''v'' ''b'')], ''old'',
         Some (ErrorString ''refused''))"
proof -
  let ?E = "mock_env (\<lambda>n. Inr (response_of 200 ''new''))"
  let ?F = "mock_env (\<lambda>n. Inl ''refused'')"
  let ?c = "handle_plain\<lparr>http := \<lparr>Timeout = 10 * Second\<rparr>\<rparr>"
  let ?t1 = "[Send (http (applied_timeout handle_plain)) (built_request ''GET'' ''u'' [])]"
  let ?t2 = "[Send (http (applied_timeout ?c)) (built_request ''POST'' ''v'' ''b'')]"
  let ?t3 = "[Send (http (applied_timeout handle_plain)) (built_request ''POST'' ''v'' ''b'')]"
  have 1: "get ?E handle_plain ''u'' ''old''
      = Some (applied_timeout handle_plain, ?t1, ''new'', None)"
    by (simp add: get_enters_loop MethodGet_def mock_env_simps mock_env_decoders
          get_loop.simps throttled_status example_responses status_defs)
  have 2: "request ?F ?c ''v'' ''b'' ''POST'' ''old''
      = Some (applied_timeout ?c, ?t2, ''old'', Some (ErrorString ''refused''))"
    by (simp add: request_enters_loop mock_env_simps request_loop.simps)
  have 3: "request ?F handle_plain ''v'' ''b'' ''POST'' ''old''
      = Some (applied_timeout handle_plain, ?t3, ''old'', Some (ErrorString ''refused''))"
    by (simp add: request_enters_loop mock_env_simps request_loop.simps)
  have h: "http handle_plain = \<lparr>Timeout = 0\<rparr>" "Timeout (http ?c) = 10 * Second"
    by (simp_all add: handle_plain_def)
  note T1 = timeout_default_applied [of ?E handle_plain "''u''" "''old''"
        "applied_timeout handle_plain" ?t1 "''new''" None "''b''" "''POST''",
        THEN conjunct1, THEN mp, OF 1, THEN conjunct1]
  have e1: "applied_timeout handle_plain = ?c"
    using T1 by (simp add: h Second_def)
  have g1: "get ?E handle_plain ''u'' ''old'' = Some (?c, ?t1, ''new'', None)"
    using 1 by (simp only: e1)
  note T3 = timeout_default_applied [of ?E handle_plain "''u''" "''old''"
        ?c ?t1 "''new''" None "''b''" "''POST''" ?F "''v''" "''old''"
        "applied_timeout ?c" ?t2 "''old''" "Some (ErrorString ''refused'')" "''b''" "''POST''",
        THEN conjunct2, THEN conjunct2, THEN mp]
  have e2: "applied_timeout ?c = ?c"
    by (rule T3) (simp add: g1 2)
  show ?thesis
    unfolding 1 2 3 e1 e2 by simp
qed

text \<open>
  Both executors, called with the empty URL on a fresh handle, whose timeout is zero,
  return the handle with the timeout still zero.
\<close>

theorem timeout_empty_url_counterexample:
  "get (mock_env (\<lambda>n. Inr (response_of 200 ''new''))) handle_plain [] ''old''
     = Some (handle_plain, [], ''old'', Some (ErrorString ''url field is empty''))
   \<and> request (mock_env (\<lambda>n. Inr (response_of 200 ''new''))) handle_plain [] ''b'' ''POST'' ''old''
     = Some (handle_plain, [], ''old'', Some (ErrorString ''url field is empty''))
   \<and> Timeout (http handle_plain) = 0"
  by (simp add: get_empty_url request_empty_url handle_plain_def)

end
